theory Spec2Isabelle
  imports Complex_Main "HOL-Library.Sublist"
begin

section \<open>Python strings\<close>

text \<open>
  A Python \<open>str\<close> is a sequence of Unicode code points. A code point is modelled as a
  natural number and a string as the list of its code points, so that no name is
  excluded by the model. A literal of the source is written \<open>S ''...''\<close>.
\<close>

type_synonym pystr = "nat list"

abbreviation (input) S :: "string \<Rightarrow> pystr" where
  "S s \<equiv> map of_char s"

text \<open>
  \<open>str.isalnum\<close>, \<open>str.isdigit\<close> and the regular expression class \<open>\s\<close> read the
  interpreter's Unicode database, which is no part of the repository. On ASCII the
  classes are fixed and written out below; beyond ASCII the database is a parameter
  of the model, and every general theorem holds for all databases.
\<close>

record unicode_db =
  db_alnum :: "nat \<Rightarrow> bool"
  db_digit :: "nat \<Rightarrow> bool"
  db_space :: "nat \<Rightarrow> bool"

definition isdigit :: "unicode_db \<Rightarrow> nat \<Rightarrow> bool" where
  "isdigit U c = (if c < 128 then 48 \<le> c \<and> c \<le> 57 else db_digit U c)"

definition isalnum :: "unicode_db \<Rightarrow> nat \<Rightarrow> bool" where
  "isalnum U c =
     (if c < 128
      then (48 \<le> c \<and> c \<le> 57) \<or> (65 \<le> c \<and> c \<le> 90) \<or> (97 \<le> c \<and> c \<le> 122)
      else db_alnum U c)"

text \<open>
  \<open>\s\<close> of a \<open>str\<close> pattern: tab, line feed, vertical tab, form feed, carriage return,
  the four separators 28 to 31 and the space, and the database's white space beyond ASCII.
\<close>

definition isspace :: "unicode_db \<Rightarrow> nat \<Rightarrow> bool" where
  "isspace U c =
     (if c < 128 then (9 \<le> c \<and> c \<le> 13) \<or> (28 \<le> c \<and> c \<le> 32) else db_space U c)"

text \<open>\<open>sub in s\<close>: the substring test.\<close>

fun str_contains :: "pystr \<Rightarrow> pystr \<Rightarrow> bool" where
  "str_contains sub [] = (sub = [])"
| "str_contains sub (c # cs) = (prefix sub (c # cs) \<or> str_contains sub cs)"

text \<open>
  \<open>s.replace(old, new)\<close>: every occurrence of \<open>old\<close>, found from the left and not
  overlapping, becomes \<open>new\<close>. For the empty \<open>old\<close> Python puts \<open>new\<close> before every
  character and at the end.
\<close>

function py_replace :: "pystr \<Rightarrow> pystr \<Rightarrow> pystr \<Rightarrow> pystr" where
  "py_replace old new s =
     (if old = [] then new @ concat (map (\<lambda>c. c # new) s)
      else if s = [] then []
      else if prefix old s then new @ py_replace old new (drop (length old) s)
      else hd s # py_replace old new (tl s))"
  by pat_completeness auto
termination
  by (relation "measure (\<lambda>(old, new, s). length s)") (auto simp: prefix_def)

declare py_replace.simps [simp del]

lemma py_replace_Nil: "old \<noteq> [] \<Longrightarrow> py_replace old new [] = []"
  by (simp add: py_replace.simps)

lemma py_replace_Cons:
  "old \<noteq> [] \<Longrightarrow> py_replace old new (c # cs) =
     (if prefix old (c # cs) then new @ py_replace old new (drop (length old) (c # cs))
      else c # py_replace old new cs)"
  by (subst py_replace.simps) simp

lemma py_replace_pair_hit: "py_replace [a, a] [a] (a # a # r) = a # py_replace [a, a] [a] r"
  by (subst py_replace.simps) simp

lemma py_replace_pair_miss:
  "\<not> prefix [a, a] (c # cs) \<Longrightarrow>
   py_replace [a, a] [a] (c # cs) = c # py_replace [a, a] [a] cs"
  by (subst py_replace.simps) (simp del: Cons_prefix_Cons)

lemma py_replace_pair_le: "length (py_replace [a, a] [a] s) \<le> length s"
proof (induction "length s" arbitrary: s rule: less_induct)
  case less
  show ?case
  proof (cases s)
    case Nil
    then show ?thesis by (simp add: py_replace_Nil)
  next
    case (Cons c cs)
    show ?thesis
    proof (cases "prefix [a, a] s")
      case True
      then obtain r where r: "s = a # a # r" by (auto simp: prefix_def)
      have "length (py_replace [a, a] [a] r) \<le> length r"
        using less [of r] r by simp
      then show ?thesis unfolding r py_replace_pair_hit by simp
    next
      case False
      have "length (py_replace [a, a] [a] cs) \<le> length cs"
        using less [of cs] Cons by simp
      moreover have "py_replace [a, a] [a] s = c # py_replace [a, a] [a] cs"
        using False unfolding Cons by (rule py_replace_pair_miss)
      ultimately show ?thesis using Cons by simp
    qed
  qed
qed

lemma py_replace_pair_less:
  "str_contains [a, a] s \<Longrightarrow> length (py_replace [a, a] [a] s) < length s"
proof (induction s)
  case Nil
  then show ?case by simp
next
  case (Cons c cs)
  show ?case
  proof (cases "prefix [a, a] (c # cs)")
    case True
    then obtain r where r: "c # cs = a # a # r" by (auto simp: prefix_def)
    have "length (py_replace [a, a] [a] r) \<le> length r" by (rule py_replace_pair_le)
    then show ?thesis unfolding r py_replace_pair_hit by simp
  next
    case False
    then have "str_contains [a, a] cs" using Cons.prems by (simp del: Cons_prefix_Cons)
    then have "length (py_replace [a, a] [a] cs) < length cs" by (rule Cons.IH)
    then show ?thesis unfolding py_replace_pair_miss [OF False] by simp
  qed
qed

text \<open>\<open>str(n)\<close> of a non-negative integer: its decimal digits.\<close>

fun str_of_nat :: "nat \<Rightarrow> pystr" where
  "str_of_nat n = (if n < 10 then [48 + n] else str_of_nat (n div 10) @ [48 + n mod 10])"

declare str_of_nat.simps [simp del]

section \<open>The identifier sanitizer\<close>

text \<open>
  The loop \<open>while "__" in sanitized: sanitized = sanitized.replace("__", "_")\<close> of
  \<open>generate_tests.py\<close>. Every round shortens the string, so the loop ends.
\<close>

function collapse_underscores :: "pystr \<Rightarrow> pystr" where
  "collapse_underscores s =
     (if str_contains (S ''__'') s
      then collapse_underscores (py_replace (S ''__'') (S ''_'') s)
      else s)"
  by pat_completeness auto
termination
  by (relation "measure length") (use py_replace_pair_less [of 95] in auto)

declare collapse_underscores.simps [simp del]

text \<open>
  \<open>"".join(c if c.isalnum() or c == "_" else "_" for c in sanitized)\<close>, shared by the
  two scripts.
\<close>

definition replace_special :: "unicode_db \<Rightarrow> pystr \<Rightarrow> pystr" where
  "replace_special U s = map (\<lambda>c. if isalnum U c \<or> c = 95 then c else 95) s"

text \<open>
  \<open>if sanitized and sanitized[0].isdigit(): sanitized = "test_" + sanitized\<close>. The
  index is read only on a non-empty string.
\<close>

definition prefix_digit :: "unicode_db \<Rightarrow> pystr \<Rightarrow> pystr" where
  "prefix_digit U s =
     (case s of [] \<Rightarrow> s | c # _ \<Rightarrow> if isdigit U c then S ''test_'' @ s else s)"

text \<open>\<open>sanitize_test_name\<close> of \<open>generate_tests.py\<close> (the richer variant).\<close>

definition sanitize_test_name :: "unicode_db \<Rightarrow> pystr \<Rightarrow> pystr" where
  "sanitize_test_name U name =
     (let sanitized = py_replace (S '' '') (S ''_'')
            (py_replace (S ''.'') (S ''_'') (py_replace (S ''-'') (S ''_'') name));
          sanitized = py_replace (S '')'') (S ''_'')
            (py_replace (S ''('') (S ''_'') (py_replace (S ''::'') (S ''_'') sanitized));
          sanitized = py_replace (S '','') (S ''_'')
            (py_replace (S '']'') (S ''_'') (py_replace (S ''['') (S ''_'') sanitized));
          sanitized = replace_special U sanitized;
          sanitized = collapse_underscores sanitized
      in prefix_digit U sanitized)"

text \<open>\<open>sanitize_test_name\<close> of \<open>generate_spec_tests.py\<close> (the simpler variant).\<close>

definition sanitize_test_name_spec :: "unicode_db \<Rightarrow> pystr \<Rightarrow> pystr" where
  "sanitize_test_name_spec U name =
     (let sanitized = py_replace (S '' '') (S ''_'')
            (py_replace (S ''.'') (S ''_'') (py_replace (S ''-'') (S ''_'') name));
          sanitized = replace_special U sanitized
      in prefix_digit U sanitized)"

section \<open>Paths\<close>

text \<open>
  A \<open>pathlib\<close> path is the tuple of its \<open>parts\<close>: for an absolute POSIX path
  the first part is the root \<open>/\<close> (or \<open>//\<close>), the others are the names.
\<close>

type_synonym path = "pystr list"

text \<open>The exceptions that leave a function of the scripts.\<close>

datatype py_exception = ValueError | OSError | UnicodeDecodeError

definition is_absolute :: "path \<Rightarrow> bool" where
  "is_absolute p = (case p of [] \<Rightarrow> False | r # _ \<Rightarrow> r = S ''/'' \<or> r = S ''//'')"

text \<open>\<open>a / b\<close>: an absolute right operand replaces the left one.\<close>

definition joinpath :: "path \<Rightarrow> path \<Rightarrow> path" where
  "joinpath a b = (if is_absolute b then b else a @ b)"

text \<open>
  \<open>p.relative_to(base)\<close> raises \<open>ValueError\<close> unless \<open>base\<close> is a leading part of
  \<open>p\<close>; an absolute path is never relative to a relative one.
\<close>

definition relative_to :: "path \<Rightarrow> path \<Rightarrow> py_exception + path" where
  "relative_to p base =
     (if prefix base p \<and> (is_absolute p \<longrightarrow> is_absolute base)
      then Inr (drop (length base) p) else Inl ValueError)"

text \<open>\<open>sep.join(xs)\<close>.\<close>

fun join_with :: "pystr \<Rightarrow> pystr list \<Rightarrow> pystr" where
  "join_with sep [] = []"
| "join_with sep [x] = x"
| "join_with sep (x # y # ys) = x @ sep @ join_with sep (y # ys)"

text \<open>\<open>str(p)\<close>: the parts joined by \<open>/\<close>; the empty path is \<open>.\<close>.\<close>

definition str_of_path :: "path \<Rightarrow> pystr" where
  "str_of_path p =
     (case p of [] \<Rightarrow> S ''.''
      | r # rest \<Rightarrow> if is_absolute p then r @ join_with (S ''/'') rest else join_with (S ''/'') p)"

text \<open>\<open>s.split(sep)\<close> for a separator of one character: never the empty list.\<close>

fun py_split :: "nat \<Rightarrow> pystr \<Rightarrow> pystr list" where
  "py_split sep [] = [[]]"
| "py_split sep (c # cs) =
     (if c = sep then [] # py_split sep cs
      else (case py_split sep cs of [] \<Rightarrow> [[c]] | p # ps \<Rightarrow> (c # p) # ps))"

text \<open>
  \<open>Path(s)\<close>, as \<open>a / s\<close> reads a string operand: split at \<open>/\<close>, empty and \<open>.\<close>
  components dropped, one leading \<open>/\<close> (or exactly two) kept as the root.
\<close>

definition path_of_str :: "pystr \<Rightarrow> path" where
  "path_of_str s =
     (let comps = filter (\<lambda>c. c \<noteq> [] \<and> c \<noteq> S ''.'') (py_split 47 s)
      in if prefix (S ''//'') s \<and> \<not> prefix (S ''///'') s then S ''//'' # comps
         else if prefix (S ''/'') s then S ''/'' # comps
         else comps)"

text \<open>\<open>s.rfind(c)\<close>: the last index of \<open>c\<close>, or \<open>-1\<close>.\<close>

fun rfind :: "nat \<Rightarrow> pystr \<Rightarrow> int" where
  "rfind c [] = -1"
| "rfind c (x # xs) = (let r = rfind c xs in if r \<ge> 0 then r + 1 else if x = c then 0 else -1)"

text \<open>\<open>p.name\<close>, \<open>p.suffix\<close> and \<open>p.with_suffix(sfx)\<close>.\<close>

definition path_name :: "path \<Rightarrow> pystr" where
  "path_name p = (if p = [] \<or> (is_absolute p \<and> length p = 1) then [] else last p)"

definition path_suffix :: "path \<Rightarrow> pystr" where
  "path_suffix p =
     (let name = path_name p; i = rfind 46 name
      in if 0 < i \<and> i < int (length name) - 1 then drop (nat i) name else [])"

definition with_suffix :: "path \<Rightarrow> pystr \<Rightarrow> py_exception + path" where
  "with_suffix p sfx =
     (if str_contains (S ''/'') sfx \<or> (sfx \<noteq> [] \<and> \<not> prefix (S ''.'') sfx) \<or> sfx = S ''.''
      then Inl ValueError
      else let name = path_name p in
        if name = [] then Inl ValueError
        else let old_suffix = path_suffix p;
                 name = (if old_suffix = [] then name @ sfx
                         else take (length name - length old_suffix) name @ sfx)
             in Inr (butlast p @ [name]))"

section \<open>The test-unit compiler\<close>

text \<open>
  A value as \<open>json.load\<close> returns it. A JSON object is a Python \<open>dict\<close>: the list of
  its items in insertion order, with pairwise distinct keys. The payloads are never read.
\<close>

datatype json =
    JNull
  | JBool bool
  | JNumber pystr
  | JString pystr
  | JArray "json list"
  | JObject "(pystr \<times> json) list"

text \<open>
  What the block \<open>with open(json_path, "r") as f: data = json.load(f)\<close> does: it
  raises an \<open>IOError\<close> or a \<open>json.JSONDecodeError\<close> (each with the message \<open>str(e)\<close>),
  it raises something else (reading a file that is not valid in its encoding raises
  \<open>UnicodeDecodeError\<close>, a \<open>ValueError\<close> that is neither of the two), or it returns
  the value.
\<close>

datatype load_outcome =
    LoadIOError pystr
  | LoadJSONDecodeError pystr
  | LoadRaised py_exception
  | Loaded json

text \<open>
  What one call of \<open>generate_test_file\<close> leaves behind when it returns: the count it
  returns, the lines it printed to \<open>sys.stderr\<close>, and the file it wrote (path and
  text), if any. Creating the directories and writing the file are taken to succeed.
\<close>

record generated =
  returned :: nat
  stderr_lines :: "pystr list"
  written :: "(path \<times> pystr) option"

definition skipped :: "pystr \<Rightarrow> generated" where
  "skipped warning = \<lparr>returned = 0, stderr_lines = [warning], written = None\<rparr>"

definition warn_parse :: "path \<Rightarrow> pystr \<Rightarrow> pystr" where
  "warn_parse json_path e = S ''Warning: Could not parse '' @ str_of_path json_path @ S '': '' @ e"

definition warn_object :: "path \<Rightarrow> pystr" where
  "warn_object json_path =
     S ''Warning: '' @ str_of_path json_path @ S '' does not contain a test object''"

text \<open>\<open>"../" * depth + "root.zig"\<close>.\<close>

definition root_import :: "nat \<Rightarrow> pystr" where
  "root_import depth = concat (replicate depth (S ''../'')) @ S ''root.zig''"

text \<open>The first lines of every generated file; 34 is the code point of the double quote.\<close>

definition preamble :: "pystr \<Rightarrow> pystr list" where
  "preamble root_imp =
     [S ''const std = @import('' @ [34] @ S ''std'' @ [34] @ S '');'',
      S ''const testing = std.testing;'',
      S ''const root = @import('' @ [34] @ root_imp @ [34] @ S '');'',
      S ''const runner = root.runner;'',
      S '''']"

text \<open>
  The collision counter: a name seen before gets the next number of its base name
  appended; a new name is kept and its counter set to 0.
\<close>

definition unique_name :: "(pystr \<rightharpoonup> nat) \<Rightarrow> pystr \<Rightarrow> (pystr \<rightharpoonup> nat) \<times> pystr" where
  "unique_name used_names safe_test_name =
     (case used_names safe_test_name of
        Some n \<Rightarrow> (used_names(safe_test_name \<mapsto> n + 1),
                   safe_test_name @ S ''_'' @ str_of_nat (n + 1))
      | None \<Rightarrow> (used_names(safe_test_name \<mapsto> 0), safe_test_name))"

text \<open>The lines one test case adds in \<open>generate_tests.py\<close>.\<close>

definition test_block :: "pystr \<Rightarrow> pystr \<Rightarrow> pystr \<Rightarrow> pystr list" where
  "test_block unique_test_name json_rel_path test_name =
     [S ''test '' @ [34] @ unique_test_name @ [34] @ S '' {'',
      S ''    const allocator = testing.allocator;'',
      S '''',
      S ''    // Read and parse the JSON test file'',
      S ''    const json_path = '' @ [34] @ json_rel_path @ [34] @ S '';'',
      S ''    const json_content = try std.fs.cwd().readFileAlloc(allocator, json_path, 100 * 1024 * 1024);'',
      S ''    defer allocator.free(json_content);'',
      S '''',
      S ''    const parsed = try std.json.parseFromSlice(std.json.Value, allocator, json_content, .{});'',
      S ''    defer parsed.deinit();'',
      S '''',
      S ''    // Get the specific test case'',
      S ''    const test_case = parsed.value.object.get('' @ [34] @ test_name @ [34]
        @ S '') orelse return error.TestNotFound;'',
      S '''',
      S ''    // Run the test with path for trace generation'',
      S ''    try runner.runJsonTestWithPath(allocator, test_case, json_path);'',
      S ''}'',
      S '''']"

text \<open>The lines one test case adds in \<open>generate_spec_tests.py\<close>.\<close>

definition test_block_spec :: "pystr \<Rightarrow> pystr \<Rightarrow> pystr \<Rightarrow> pystr list" where
  "test_block_spec unique_test_name json_abs_path test_name =
     [S ''test '' @ [34] @ unique_test_name @ [34] @ S '' {'',
      S ''    const allocator = testing.allocator;'',
      S '''',
      S ''    // Read and parse the JSON test file'',
      S ''    const json_path = '' @ [34] @ json_abs_path @ [34] @ S '';'',
      S ''    const json_content = try std.fs.cwd().readFileAlloc(allocator, json_path, 100 * 1024 * 1024);'',
      S ''    defer allocator.free(json_content);'',
      S '''',
      S ''    const parsed = try std.json.parseFromSlice(std.json.Value, allocator, json_content, .{});'',
      S ''    defer parsed.deinit();'',
      S '''',
      S ''    // Get the specific test case'',
      S ''    const test_name = '' @ [34] @ test_name @ [34] @ S '';'',
      S ''    const test_case = parsed.value.object.get(test_name) orelse return error.TestNotFound;'',
      S '''',
      S ''    // Run the test with path and name for trace generation'',
      S ''    try runner.runJsonTestWithPathAndName(allocator, test_case, json_path, test_name);'',
      S ''}'',
      S '''']"

text \<open>
  The loop \<open>for test_name in data.keys()\<close> of \<open>generate_tests.py\<close>, over the state
  \<open>(used_names, zig_code, test_count)\<close>.
\<close>

fun emit_tests ::
  "unicode_db \<Rightarrow> pystr \<Rightarrow> (pystr \<rightharpoonup> nat) \<times> pystr list \<times> nat \<Rightarrow> pystr list \<Rightarrow>
   (pystr \<rightharpoonup> nat) \<times> pystr list \<times> nat" where
  "emit_tests U json_rel_path st [] = st"
| "emit_tests U json_rel_path (used_names, zig_code, test_count) (test_name # rest) =
     (let safe_test_name = sanitize_test_name U test_name;
          (used_names, unique_test_name) = unique_name used_names safe_test_name
      in emit_tests U json_rel_path
           (used_names,
            zig_code @ test_block unique_test_name json_rel_path test_name,
            test_count + 1) rest)"

text \<open>
  The loop of \<open>generate_spec_tests.py\<close>. Each round computes
  \<open>str((specs_root / rel_path).relative_to(repo_root))\<close>, which raises \<open>ValueError\<close>
  when the fixture root is not below the repository root.
\<close>

fun emit_tests_spec ::
  "unicode_db \<Rightarrow> path \<Rightarrow> path \<Rightarrow> path \<Rightarrow> (pystr \<rightharpoonup> nat) \<times> pystr list \<times> nat \<Rightarrow>
   pystr list \<Rightarrow> py_exception + (pystr \<rightharpoonup> nat) \<times> pystr list \<times> nat" where
  "emit_tests_spec U specs_root rel_path repo_root st [] = Inr st"
| "emit_tests_spec U specs_root rel_path repo_root (used_names, zig_code, test_count)
     (test_name # rest) =
     (let safe_test_name = sanitize_test_name_spec U test_name;
          (used_names, unique_test_name) = unique_name used_names safe_test_name
      in case relative_to (joinpath specs_root rel_path) repo_root of
           Inl e \<Rightarrow> Inl e
         | Inr p \<Rightarrow>
             emit_tests_spec U specs_root rel_path repo_root
               (used_names,
                zig_code @ test_block_spec unique_test_name (str_of_path p) test_name,
                test_count + 1) rest)"

text \<open>\<open>generate_test_file\<close> of \<open>generate_tests.py\<close>.\<close>

definition generate_test_file ::
  "unicode_db \<Rightarrow> load_outcome \<Rightarrow> path \<Rightarrow> path \<Rightarrow> pystr \<Rightarrow> pystr \<Rightarrow> py_exception + generated" where
  "generate_test_file U loaded json_path output_dir json_rel_path source_name =
     (case loaded of
        LoadIOError e \<Rightarrow> Inr (skipped (warn_parse json_path e))
      | LoadJSONDecodeError e \<Rightarrow> Inr (skipped (warn_parse json_path e))
      | LoadRaised x \<Rightarrow> Inl x
      | Loaded data \<Rightarrow>
          (case data of
             JObject items \<Rightarrow>
               (let zig_rel = path_of_str (py_replace (S ''.json'') (S ''.zig'') json_rel_path);
                    output_file =
                      (if source_name = S ''ethereum_tests''
                       then joinpath (joinpath output_dir [S ''ethereum_tests'']) zig_rel
                       else joinpath output_dir zig_rel)
                in case relative_to output_file output_dir of
                     Inl x \<Rightarrow> Inl x
                   | Inr out_rel \<Rightarrow>
                       (let depth = length out_rel;
                            zig_code = preamble (root_import depth);
                            (used_names, zig_code, test_count) =
                              emit_tests U json_rel_path (Map.empty, zig_code, 0) (map fst items)
                        in Inr \<lparr>returned = test_count, stderr_lines = [],
                                written = Some (output_file, join_with [10] zig_code)\<rparr>))
           | _ \<Rightarrow> Inr (skipped (warn_object json_path))))"

text \<open>\<open>generate_test_file\<close> of \<open>generate_spec_tests.py\<close>.\<close>

definition generate_test_file_spec ::
  "unicode_db \<Rightarrow> load_outcome \<Rightarrow> path \<Rightarrow> path \<Rightarrow> path \<Rightarrow> path \<Rightarrow> py_exception + generated" where
  "generate_test_file_spec U loaded json_path output_dir specs_root repo_root =
     (case loaded of
        LoadIOError e \<Rightarrow> Inr (skipped (warn_parse json_path e))
      | LoadJSONDecodeError e \<Rightarrow> Inr (skipped (warn_parse json_path e))
      | LoadRaised x \<Rightarrow> Inl x
      | Loaded data \<Rightarrow>
          (case data of
             JObject items \<Rightarrow>
               (case relative_to json_path specs_root of
                  Inl x \<Rightarrow> Inl x
                | Inr rel_path \<Rightarrow>
                    (case with_suffix rel_path (S ''.zig'') of
                       Inl x \<Rightarrow> Inl x
                     | Inr zig_rel \<Rightarrow>
                         (let output_file = joinpath output_dir zig_rel
                          in case relative_to output_file output_dir of
                               Inl x \<Rightarrow> Inl x
                             | Inr out_rel \<Rightarrow>
                                 (let depth = length out_rel;
                                      zig_code = preamble (root_import depth)
                                  in case emit_tests_spec U specs_root rel_path repo_root
                                            (Map.empty, zig_code, 0) (map fst items) of
                                       Inl x \<Rightarrow> Inl x
                                     | Inr (used_names, zig_code, test_count) \<Rightarrow>
                                         Inr \<lparr>returned = test_count, stderr_lines = [],
                                              written = Some (output_file,
                                                join_with [10] zig_code)\<rparr>))))
           | _ \<Rightarrow> Inr (skipped (warn_object json_path))))"

text \<open>A string of alphanumeric characters and underscores only.\<close>

definition clean :: "unicode_db \<Rightarrow> pystr \<Rightarrow> bool" where
  "clean U s = list_all (\<lambda>c. isalnum U c \<or> c = 95) s"

text \<open>A name of a file or a directory: not empty and without a slash (code point 47).\<close>

definition valid_name :: "pystr \<Rightarrow> bool" where
  "valid_name n = (n \<noteq> [] \<and> 47 \<notin> set n)"

text \<open>
  A database with no letter, digit or white space beyond ASCII, for the closed examples.
\<close>

definition ascii_db :: unicode_db where
  "ascii_db = \<lparr>db_alnum = (\<lambda>c. False), db_digit = (\<lambda>c. False), db_space = (\<lambda>c. False)\<rparr>"

text \<open>
  The loop \<open>for json_file in json_files: total_tests += generate_test_file(...)\<close> of
  \<open>main\<close> in \<open>generate_spec_tests.py\<close>. \<open>load\<close> says what reading each file gives. No
  handler stands around the call: an exception of one call ends the run.
\<close>

fun process_files_spec ::
  "unicode_db \<Rightarrow> (path \<Rightarrow> load_outcome) \<Rightarrow> path \<Rightarrow> path \<Rightarrow> path \<Rightarrow> path list \<Rightarrow> nat \<Rightarrow>
   py_exception + nat" where
  "process_files_spec U load output_root specs_root repo_root [] total_tests = Inr total_tests"
| "process_files_spec U load output_root specs_root repo_root (json_file # rest) total_tests =
     (case generate_test_file_spec U (load json_file) json_file output_root specs_root repo_root of
        Inl e \<Rightarrow> Inl e
      | Inr g \<Rightarrow>
          process_files_spec U load output_root specs_root repo_root rest
            (total_tests + returned g))"

text \<open>
  The loop over the scanned files of one source in \<open>main\<close> of \<open>generate_tests.py\<close>,
  over the pair \<open>(source_file_count, source_test_count)\<close>.
\<close>

fun process_files ::
  "unicode_db \<Rightarrow> (path \<Rightarrow> load_outcome) \<Rightarrow> path \<Rightarrow> pystr \<Rightarrow> (path \<times> pystr) list \<Rightarrow>
   nat \<times> nat \<Rightarrow> py_exception + nat \<times> nat" where
  "process_files U load output_root source_name [] counts = Inr counts"
| "process_files U load output_root source_name ((json_file, rel_path) # rest)
     (source_file_count, source_test_count) =
     (case generate_test_file U (load json_file) json_file output_root rel_path source_name of
        Inl e \<Rightarrow> Inl e
      | Inr g \<Rightarrow>
          process_files U load output_root source_name rest
            (if returned g > 0
             then (source_file_count + 1, source_test_count + returned g)
             else (source_file_count, source_test_count)))"



section \<open>The file system\<close>

text \<open>
  The scripts see the file system through \<open>pathlib\<close>, \<open>shutil\<close>, \<open>os\<close> and \<open>tarfile\<close>.
  The model records which paths exist and of which kind, not the bytes of files: a
  file system is a list of entries, each path listed once, in the order a directory
  scan yields them. A path is looked up as it is written; a symbolic link is followed
  when it is the path itself.
\<close>

datatype node = File | Dir | Link path

type_synonym filesystem = "(path \<times> node) list"

text \<open>
  Following the links at a path, at most 40 of them, to the entry they end at.
  \<open>None\<close> stands for a missing entry, a dangling link and a loop of links.
\<close>

fun follow :: "nat \<Rightarrow> filesystem \<Rightarrow> path \<Rightarrow> (path \<times> node) option" where
  "follow k fs p =
     (case map_of fs p of
        None \<Rightarrow> None
      | Some (Link t) \<Rightarrow> (case k of 0 \<Rightarrow> None | Suc j \<Rightarrow> follow j fs t)
      | Some n \<Rightarrow> Some (p, n))"

definition resolve :: "filesystem \<Rightarrow> path \<Rightarrow> (path \<times> node) option" where
  "resolve fs p = follow 40 fs p"

text \<open>\<open>p.exists()\<close>: \<open>stat\<close> follows links and answers false for a dangling one.\<close>

definition exists :: "filesystem \<Rightarrow> path \<Rightarrow> bool" where
  "exists fs p = (resolve fs p \<noteq> None)"

text \<open>
  \<open>start.rglob("*.json")\<close>: every entry below the directory that \<open>start\<close> is (or links to)
  whose name ends in \<open>.json\<close>, reached through directories only: the recursive
  wildcard does not enter symbolic links. Nothing is found when \<open>start\<close> is no directory.
\<close>

definition through_dirs :: "filesystem \<Rightarrow> path \<Rightarrow> path \<Rightarrow> bool" where
  "through_dirs fs base rel =
     list_all (\<lambda>k. map_of fs (base @ take k rel) = Some Dir) [1..<length rel]"

definition rglob_json :: "filesystem \<Rightarrow> path \<Rightarrow> path list" where
  "rglob_json fs start =
     (case resolve fs start of
        Some (base, Dir) \<Rightarrow>
          map (\<lambda>p. start @ drop (length base) p)
            (filter (\<lambda>p. strict_prefix base p \<and> suffix (S ''.json'') (last p)
                          \<and> through_dirs fs base (drop (length base) p))
               (map fst fs))
      | _ \<Rightarrow> [])"

text \<open>
  \<open>shutil.rmtree(p)\<close> removes a directory with everything below it. It refuses a
  symbolic link, a file and a missing path with an \<open>OSError\<close>.
\<close>

definition rmtree :: "filesystem \<Rightarrow> path \<Rightarrow> py_exception + filesystem" where
  "rmtree fs p =
     (case map_of fs p of
        Some Dir \<Rightarrow> Inr (filter (\<lambda>(q, n). \<not> prefix p q) fs)
      | _ \<Rightarrow> Inl OSError)"

text \<open>\<open>p.parent\<close>: the root and the empty path are their own parents.\<close>

definition parent :: "path \<Rightarrow> path" where
  "parent p = (if length p \<le> 1 \<and> (p = [] \<or> is_absolute p) then p else butlast p)"

text \<open>
  \<open>d.mkdir(parents=True, exist_ok=True)\<close>: every leading part of \<open>d\<close> that is missing
  is created; one that exists must be a directory (or a link to one).
\<close>

fun mkdir_each :: "filesystem \<Rightarrow> path list \<Rightarrow> py_exception + filesystem" where
  "mkdir_each fs [] = Inr fs"
| "mkdir_each fs (q # qs) =
     (case map_of fs q of
        None \<Rightarrow> mkdir_each (fs @ [(q, Dir)]) qs
      | Some n \<Rightarrow>
          (case resolve fs q of
             Some (r, Dir) \<Rightarrow> mkdir_each fs qs
           | _ \<Rightarrow> Inl OSError))"

definition mkdir_parents :: "filesystem \<Rightarrow> path \<Rightarrow> py_exception + filesystem" where
  "mkdir_parents fs d = mkdir_each fs (map (\<lambda>k. take k d) [1..<Suc (length d)])"

text \<open>
  \<open>a.rename(b)\<close> as the script uses it, with \<open>b\<close> missing: the entry at \<open>a\<close> and all
  below it move to \<open>b\<close>. Anything at \<open>b\<close> (the script has ruled out all but a dangling
  link) makes it fail.
\<close>

definition rename :: "filesystem \<Rightarrow> path \<Rightarrow> path \<Rightarrow> py_exception + filesystem" where
  "rename fs a b =
     (if map_of fs a \<noteq> None \<and> map_of fs b = None
      then Inr (map (\<lambda>(q, n). if prefix a q then (b @ drop (length a) q, n) else (q, n)) fs)
      else Inl OSError)"

text \<open>
  \<open>os.symlink\<close>, \<open>shutil.copytree\<close> and \<open>tarfile.open(...).extractall\<close> are library
  code whose effect depends on the platform and on the bytes of an archive. The model
  takes them as parameters: each gives the file system it leaves and the exception it
  raises, if any. \<open>os_symlink fs target link\<close>, \<open>copytree fs src dst\<close>,
  \<open>extractall fs archive dest\<close>.
\<close>

record os_lib =
  os_symlink :: "filesystem \<Rightarrow> path \<Rightarrow> path \<Rightarrow> filesystem \<times> py_exception option"
  copytree :: "filesystem \<Rightarrow> path \<Rightarrow> path \<Rightarrow> filesystem \<times> py_exception option"
  extractall :: "filesystem \<Rightarrow> path \<Rightarrow> path \<Rightarrow> filesystem \<times> py_exception option"

text \<open>What a function did to the file system and printed, in order.\<close>

datatype action =
    Rmtree path
  | Mkdir path
  | Symlink path path
  | Copytree path path
  | Extractall path path
  | Rename path path
  | Print pystr
  | PrintErr pystr

text \<open>
  The effect of a call: the file system it leaves, the calls it made and the lines it
  printed, and the exception it raised (\<open>None\<close> when it returned).
\<close>

record effect =
  fs_after :: filesystem
  performed :: "action list"
  raised :: "py_exception option"

definition after :: "action list \<Rightarrow> effect \<Rightarrow> effect" where
  "after acts e = e\<lparr>performed := acts @ performed e\<rparr>"

text \<open>
  \<open>ensure_blockchain_fixtures\<close> from \<open>specs_root.parent.mkdir(parents=True, exist_ok=True)\<close>
  to its end: the legacy tree is linked, or copied when linking raises \<open>OSError\<close>;
  else the archive is extracted and \<open>BlockchainTests\<close> renamed into place; else a warning.
\<close>

definition acquire_blockchain_fixtures :: "os_lib \<Rightarrow> filesystem \<Rightarrow> path \<Rightarrow> path \<Rightarrow> effect" where
  "acquire_blockchain_fixtures L fs specs_root repo_root =
     (case mkdir_parents fs (parent specs_root) of
        Inl e \<Rightarrow> \<lparr>fs_after = fs, performed = [Mkdir (parent specs_root)], raised = Some e\<rparr>
      | Inr fs \<Rightarrow>
          after [Mkdir (parent specs_root)]
            (let legacy_root = repo_root @ [S ''ethereum-tests'', S ''BlockchainTests''] in
             if exists fs legacy_root \<and> rglob_json fs legacy_root \<noteq> [] then
               (case os_symlink L fs legacy_root specs_root of
                  (fs, None) \<Rightarrow>
                    \<lparr>fs_after = fs,
                     performed = [Symlink legacy_root specs_root,
                       Print (S ''Linked blockchain fixtures from '' @ str_of_path legacy_root)],
                     raised = None\<rparr>
                | (fs, Some OSError) \<Rightarrow>
                    (case copytree L fs legacy_root specs_root of
                       (fs, None) \<Rightarrow>
                         \<lparr>fs_after = fs,
                          performed = [Symlink legacy_root specs_root,
                            Copytree legacy_root specs_root,
                            Print (S ''Copied blockchain fixtures from '' @ str_of_path legacy_root)],
                          raised = None\<rparr>
                     | (fs, Some e) \<Rightarrow>
                         \<lparr>fs_after = fs,
                          performed = [Symlink legacy_root specs_root,
                            Copytree legacy_root specs_root],
                          raised = Some e\<rparr>)
                | (fs, Some e) \<Rightarrow>
                    \<lparr>fs_after = fs, performed = [Symlink legacy_root specs_root],
                     raised = Some e\<rparr>)
             else
               (let tar_path = repo_root @ [S ''ethereum-tests'', S ''fixtures_blockchain_tests.tgz'']
                in if exists fs tar_path then
                  (case extractall L fs tar_path (parent specs_root) of
                     (fs, Some e) \<Rightarrow>
                       \<lparr>fs_after = fs, performed = [Extractall tar_path (parent specs_root)],
                        raised = Some e\<rparr>
                   | (fs, None) \<Rightarrow>
                       (let extracted_root = parent specs_root @ [S ''BlockchainTests''] in
                        if exists fs extracted_root \<and> \<not> exists fs specs_root then
                          (case rename fs extracted_root specs_root of
                             Inl e \<Rightarrow>
                               \<lparr>fs_after = fs,
                                performed = [Extractall tar_path (parent specs_root),
                                  Rename extracted_root specs_root],
                                raised = Some e\<rparr>
                           | Inr fs \<Rightarrow>
                               \<lparr>fs_after = fs,
                                performed = [Extractall tar_path (parent specs_root),
                                  Rename extracted_root specs_root,
                                  Print (S ''Extracted blockchain fixtures from '' @ str_of_path tar_path)],
                                raised = None\<rparr>)
                        else
                          \<lparr>fs_after = fs,
                           performed = [Extractall tar_path (parent specs_root),
                             Print (S ''Extracted blockchain fixtures from '' @ str_of_path tar_path)],
                           raised = None\<rparr>))
                else
                  \<lparr>fs_after = fs,
                   performed = [Print (S ''Warning: No blockchain fixtures found; blockchain tests will be empty.'')],
                   raised = None\<rparr>)))"

text \<open>\<open>ensure_blockchain_fixtures\<close> of \<open>generate_spec_tests.py\<close>.\<close>

definition ensure_blockchain_fixtures :: "os_lib \<Rightarrow> filesystem \<Rightarrow> path \<Rightarrow> path \<Rightarrow> effect" where
  "ensure_blockchain_fixtures L fs specs_root repo_root =
     (if exists fs specs_root \<and> rglob_json fs specs_root \<noteq> []
      then \<lparr>fs_after = fs, performed = [], raised = None\<rparr>
      else if exists fs specs_root then
        (case rmtree fs specs_root of
           Inl e \<Rightarrow> \<lparr>fs_after = fs, performed = [Rmtree specs_root], raised = Some e\<rparr>
         | Inr fs \<Rightarrow>
             after [Rmtree specs_root] (acquire_blockchain_fixtures L fs specs_root repo_root))
      else acquire_blockchain_fixtures L fs specs_root repo_root)"

text \<open>\<open>ensure_general_state_tests\<close> of \<open>generate_tests.py\<close>.\<close>

definition ensure_general_state_tests :: "os_lib \<Rightarrow> filesystem \<Rightarrow> path \<Rightarrow> effect" where
  "ensure_general_state_tests L fs repo_root =
     (let fixtures_dir = repo_root @ [S ''ethereum-tests'', S ''GeneralStateTests''] in
      if exists fs fixtures_dir then \<lparr>fs_after = fs, performed = [], raised = None\<rparr>
      else
        (let archive_path = repo_root @ [S ''ethereum-tests'', S ''fixtures_general_state_tests.tgz'']
         in if \<not> exists fs archive_path then
              \<lparr>fs_after = fs,
               performed = [PrintErr (S ''Warning: GeneralStateTests fixtures not found at ''
                 @ str_of_path fixtures_dir @ S '' or '' @ str_of_path archive_path)],
               raised = None\<rparr>
            else
              (case extractall L fs archive_path (repo_root @ [S ''ethereum-tests'']) of
                 (fs, e) \<Rightarrow>
                   \<lparr>fs_after = fs,
                    performed = [Print (S ''Extracting '' @ str_of_path archive_path @ S '' -> ''
                        @ str_of_path fixtures_dir),
                      Extractall archive_path (repo_root @ [S ''ethereum-tests''])],
                    raised = e\<rparr>)))"

text \<open>
  \<open>scan_test_directory\<close> of \<open>generate_tests.py\<close>: the files found with their paths
  relative to the repository root, and the lines printed to \<open>sys.stderr\<close>. Both
  branches on \<open>source_name\<close> compute the same path. \<open>relative_to\<close> has no handler.
\<close>

fun relative_each :: "path \<Rightarrow> path list \<Rightarrow> py_exception + (path \<times> pystr) list" where
  "relative_each repo_root [] = Inr []"
| "relative_each repo_root (json_file # rest) =
     (case relative_to json_file repo_root of
        Inl e \<Rightarrow> Inl e
      | Inr rel \<Rightarrow>
          (case relative_each repo_root rest of
             Inl e \<Rightarrow> Inl e
           | Inr json_files \<Rightarrow> Inr ((json_file, str_of_path rel) # json_files)))"

definition scan_test_directory ::
  "filesystem \<Rightarrow> path \<Rightarrow> pystr \<Rightarrow> path \<Rightarrow> py_exception + (path \<times> pystr) list \<times> pystr list" where
  "scan_test_directory fs base_path source_name repo_root =
     (if \<not> exists fs base_path
      then Inr ([], [S ''Warning: Test directory not found: '' @ str_of_path base_path])
      else (case relative_each repo_root (rglob_json fs base_path) of
              Inl e \<Rightarrow> Inl e
            | Inr json_files \<Rightarrow> Inr (json_files, [])))"

text \<open>
  The list \<open>[f for f in specs_root.rglob("*.json") if ".meta" not in f.parts]\<close> of
  \<open>main\<close> in \<open>generate_spec_tests.py\<close>.
\<close>

definition json_files_spec :: "filesystem \<Rightarrow> path \<Rightarrow> path list" where
  "json_files_spec fs specs_root = filter (\<lambda>f. S ''.meta'' \<notin> set f) (rglob_json fs specs_root)"

text \<open>
  A library for the closed examples: links can be made or not; \<open>copytree\<close> copies the
  entries below a directory to a path that is free; \<open>extractall\<close> puts the members of
  the archive below the destination, over what is there.
\<close>

definition members_lib :: "bool \<Rightarrow> (path \<times> node) list \<Rightarrow> os_lib" where
  "members_lib links members =
     \<lparr>os_symlink = (\<lambda>fs target link.
        if links \<and> map_of fs link = None then (fs @ [(link, Link target)], None)
        else (fs, Some OSError)),
      copytree = (\<lambda>fs src dst.
        case (map_of fs dst, resolve fs src) of
          (None, Some (base, Dir)) \<Rightarrow>
            (fs @ (dst, Dir) #
               map (\<lambda>(p, n). (dst @ drop (length base) p, n))
                 (filter (\<lambda>(p, n). strict_prefix base p) fs), None)
        | _ \<Rightarrow> (fs, Some OSError)),
      extractall = (\<lambda>fs archive dest.
        if exists fs archive
        then (filter (\<lambda>(p, n). p \<notin> set (map (\<lambda>(q, m). dest @ q) members)) fs
                @ map (\<lambda>(q, m). (dest @ q, m)) members, None)
        else (fs, Some OSError))\<rparr>"

text \<open>
  A repository whose \<open>GeneralStateTests\<close> directory is empty; the archive beside it
  holds one fixture.
\<close>

definition repo_empty_state_dir :: filesystem where
  "repo_empty_state_dir =
     [([S ''/''], Dir), ([S ''/'', S ''r''], Dir), ([S ''/'', S ''r'', S ''ethereum-tests''], Dir),
      ([S ''/'', S ''r'', S ''ethereum-tests'', S ''GeneralStateTests''], Dir),
      ([S ''/'', S ''r'', S ''ethereum-tests'', S ''fixtures_general_state_tests.tgz''], File)]"

definition state_members :: "(path \<times> node) list" where
  "state_members =
     [([S ''GeneralStateTests''], Dir), ([S ''GeneralStateTests'', S ''stExample''], Dir),
      ([S ''GeneralStateTests'', S ''stExample'', S ''add.json''], File)]"

text \<open>
  The canonical path of the blockchain fixtures in a repository at \<open>/r\<close>, the repository
  without it, and the repository with a directory there that holds no JSON file.
\<close>

definition blockchain_specs_root :: path where
  "blockchain_specs_root =
     [S ''/'', S ''r'', S ''execution-spec-tests'', S ''fixtures'', S ''blockchain_tests'']"

definition repo_before_fixtures :: filesystem where
  "repo_before_fixtures =
     [([S ''/''], Dir), ([S ''/'', S ''r''], Dir),
      ([S ''/'', S ''r'', S ''execution-spec-tests''], Dir),
      ([S ''/'', S ''r'', S ''execution-spec-tests'', S ''fixtures''], Dir)]"


text \<open>
  A repository with nothing but the blockchain archive; archives whose \<open>BlockchainTests\<close>
  tree has no JSON file and has one; what extraction and renaming leave in each case;
  and the same for the archive of the general state tests.
\<close>

definition repo_archive_only :: filesystem where
  "repo_archive_only =
     repo_before_fixtures @
     [([S ''/'', S ''r'', S ''ethereum-tests''], Dir),
      ([S ''/'', S ''r'', S ''ethereum-tests'', S ''fixtures_blockchain_tests.tgz''], File)]"


definition members_with_json :: "(path \<times> node) list" where
  "members_with_json =
     [([S ''BlockchainTests''], Dir), ([S ''BlockchainTests'', S ''ValidBlocks''], Dir),
      ([S ''BlockchainTests'', S ''ValidBlocks'', S ''add.json''], File)]"





text \<open>
  The root of the state tests in a repository at \<open>/r\<close>, holding one fixture and a
  \<open>.meta\<close> directory with an index file.
\<close>

definition state_tests_root :: path where
  "state_tests_root =
     [S ''/'', S ''r'', S ''execution-specs'', S ''tests'', S ''eest'', S ''static'', S ''state_tests'']"

definition repo_with_meta :: filesystem where
  "repo_with_meta =
     [([S ''/''], Dir), ([S ''/'', S ''r''], Dir),
      ([S ''/'', S ''r'', S ''execution-specs''], Dir),
      ([S ''/'', S ''r'', S ''execution-specs'', S ''tests''], Dir),
      ([S ''/'', S ''r'', S ''execution-specs'', S ''tests'', S ''eest''], Dir),
      ([S ''/'', S ''r'', S ''execution-specs'', S ''tests'', S ''eest'', S ''static''], Dir),
      (state_tests_root, Dir),
      (state_tests_root @ [S ''add.json''], File),
      (state_tests_root @ [S ''.meta''], Dir),
      (state_tests_root @ [S ''.meta'', S ''index.json''], File)]"

text \<open>A fixture directory that is not below the repository at \<open>/r\<close>.\<close>

definition repo_scanning_elsewhere :: filesystem where
  "repo_scanning_elsewhere =
     [([S ''/''], Dir), ([S ''/'', S ''r''], Dir), ([S ''/'', S ''elsewhere''], Dir),
      ([S ''/'', S ''elsewhere'', S ''f.json''], File)]"

text \<open>
  A repository with the legacy tree \<open>ethereum-tests/BlockchainTests\<close> and the archive; the
  same after the legacy tree has been linked to the canonical path; and that repository
  after the fixture of the legacy tree has been removed from it.
\<close>

definition repo_legacy_tree :: filesystem where
  "repo_legacy_tree =
     repo_archive_only @
     [([S ''/'', S ''r'', S ''ethereum-tests'', S ''BlockchainTests''], Dir),
      ([S ''/'', S ''r'', S ''ethereum-tests'', S ''BlockchainTests'', S ''add.json''], File)]"

definition repo_linked :: filesystem where
  "repo_linked =
     repo_legacy_tree @
     [(blockchain_specs_root, Link [S ''/'', S ''r'', S ''ethereum-tests'', S ''BlockchainTests''])]"

definition repo_linked_emptied :: filesystem where
  "repo_linked_emptied =
     repo_archive_only @
     [([S ''/'', S ''r'', S ''ethereum-tests'', S ''BlockchainTests''], Dir),
      (blockchain_specs_root, Link [S ''/'', S ''r'', S ''ethereum-tests'', S ''BlockchainTests''])]"



section \<open>The result analyzer\<close>

text \<open>
  \<open>s.split(sep)\<close> for a separator of any positive length, found from the left and not
  overlapping. (Python raises \<open>ValueError\<close> for the empty separator; the scripts never
  pass one, and the model gives the string back.)
\<close>

function split_on :: "pystr \<Rightarrow> pystr \<Rightarrow> pystr list" where
  "split_on sep s =
     (if sep = [] then [s]
      else if s = [] then [[]]
      else if prefix sep s then [] # split_on sep (drop (length sep) s)
      else (case split_on sep (tl s) of [] \<Rightarrow> [[hd s]] | p # ps \<Rightarrow> (hd s # p) # ps))"
  by pat_completeness auto
termination
  by (relation "measure (\<lambda>(sep, s). length s)") (auto simp: prefix_def)

declare split_on.simps [simp del]

text \<open>
  The pattern \<open>test\.([^\s]+)\.\.\.(?:OK|FAIL)\<close> tried at the start of a string. After
  the literal \<open>test.\<close>, the group \<open>[^\s]+\<close> is greedy: it first takes the whole run
  of characters that are no white space and gives them back one by one, down to one
  character, until \<open>...OK\<close> or \<open>...FAIL\<close> follows. \<open>try_names k rest\<close> tries the names
  of length \<open>k\<close>, \<open>k - 1\<close>, ..., 1 and answers the length and the status word found.
\<close>

fun try_names :: "nat \<Rightarrow> pystr \<Rightarrow> (nat \<times> pystr) option" where
  "try_names 0 rest = None"
| "try_names (Suc k) rest =
     (if prefix (S ''...OK'') (drop (Suc k) rest) then Some (Suc k, S ''OK'')
      else if prefix (S ''...FAIL'') (drop (Suc k) rest) then Some (Suc k, S ''FAIL'')
      else try_names k rest)"

text \<open>The match at the start of \<open>s\<close>, if any: \<open>group(1)\<close> and \<open>group(0)\<close>.\<close>

definition match_here :: "unicode_db \<Rightarrow> pystr \<Rightarrow> (pystr \<times> pystr) option" where
  "match_here U s =
     (if prefix (S ''test.'') s then
        (let rest = drop 5 s;
             run = takeWhile (\<lambda>c. \<not> isspace U c) rest
         in case try_names (length run) rest of
              None \<Rightarrow> None
            | Some (k, status) \<Rightarrow> Some (take k rest, S ''test.'' @ take k rest @ S ''...'' @ status))
      else None)"

lemma match_here_length: "match_here U s = Some (name, whole) \<Longrightarrow> 0 < length whole"
  by (auto simp: match_here_def Let_def split: if_splits option.splits)

text \<open>
  \<open>re.finditer\<close>: the matches from left to right, the search going on behind each match.
\<close>

function finditer :: "unicode_db \<Rightarrow> pystr \<Rightarrow> (pystr \<times> pystr) list" where
  "finditer U s =
     (if s = [] then []
      else (case match_here U s of
              Some (name, whole) \<Rightarrow> (name, whole) # finditer U (drop (length whole) s)
            | None \<Rightarrow> finditer U (tl s)))"
  by pat_completeness auto
termination
proof (relation "measure (\<lambda>(U, s). length s)")
  show "wf (measure (\<lambda>(U, s). length s))" by simp
next
  fix U :: unicode_db and s :: pystr and x2 :: "pystr \<times> pystr" and name whole :: pystr
  assume "s \<noteq> []" and "match_here U s = Some x2" and "(name, whole) = x2"
  then have "0 < length whole" using match_here_length [of U s name whole] by simp
  then show "((U, drop (length whole) s), (U, s)) \<in> measure (\<lambda>(U, s). length s)"
    using \<open>s \<noteq> []\<close> by simp
next
  fix U :: unicode_db and s :: pystr
  assume "s \<noteq> []"
  then show "((U, tl s), (U, s)) \<in> measure (\<lambda>(U, s). length s)" by simp
qed

declare finditer.simps [simp del]

text \<open>\<open>extract_category\<close>: the second of the parts between the dots, if there are two.\<close>

definition extract_category :: "pystr \<Rightarrow> pystr" where
  "extract_category test_name =
     (let parts = py_split 46 test_name
      in if length parts \<ge> 2 then parts ! 1 else S ''unknown'')"

text \<open>
  One value of the dictionary \<open>categories\<close>, and the dictionary as the list of its
  items in insertion order. \<open>bump f category categories\<close> is
  \<open>categories[category][...] += 1\<close> on the \<open>defaultdict\<close>: a missing key starts at 0, 0.
\<close>

record counts =
  passed :: nat
  failed :: nat

fun bump :: "(counts \<Rightarrow> counts) \<Rightarrow> pystr \<Rightarrow> (pystr \<times> counts) list \<Rightarrow> (pystr \<times> counts) list" where
  "bump f category [] = [(category, f \<lparr>passed = 0, failed = 0\<rparr>)]"
| "bump f category ((k, v) # rest) =
     (if k = category then (k, f v) # rest else (k, v) # bump f category rest)"

text \<open>Reading \<open>categories[category]\<close>: a key never counted reads as 0, 0.\<close>

definition counts_of :: "(pystr \<times> counts) list \<Rightarrow> pystr \<Rightarrow> counts" where
  "counts_of categories category =
     (case map_of categories category of None \<Rightarrow> \<lparr>passed = 0, failed = 0\<rparr> | Some v \<Rightarrow> v)"

text \<open>The loops \<open>for test in passed\<close> and \<open>for test in failed\<close>.\<close>

fun count_passed :: "(pystr \<times> counts) list \<Rightarrow> pystr list \<Rightarrow> (pystr \<times> counts) list" where
  "count_passed categories [] = categories"
| "count_passed categories (test # tests) =
     count_passed (bump (\<lambda>v. v\<lparr>passed := passed v + 1\<rparr>) (extract_category test) categories) tests"

fun count_failed :: "(pystr \<times> counts) list \<Rightarrow> pystr list \<Rightarrow> (pystr \<times> counts) list" where
  "count_failed categories [] = categories"
| "count_failed categories (test # tests) =
     count_failed (bump (\<lambda>v. v\<lparr>failed := failed v + 1\<rparr>) (extract_category test) categories) tests"

text \<open>
  The dictionary \<open>analyze_test_results\<close> returns, from the text of the log. The status of
  a match is \<open>match.group(0).split('...')[-1]\<close>; a match whose status is not \<open>OK\<close> counts
  as failed. The printed report is left out, but for the pass rate of a category.
\<close>

record analysis =
  total_tests :: nat
  total_passed :: nat
  total_failed :: nat
  categories_of :: "(pystr \<times> counts) list"

definition status_of :: "pystr \<times> pystr \<Rightarrow> pystr" where
  "status_of m = last (split_on (S ''...'') (snd m))"

definition analyze_test_results :: "unicode_db \<Rightarrow> pystr \<Rightarrow> analysis" where
  "analyze_test_results U content =
     (let matches = finditer U content;
          passed_tests = map fst (filter (\<lambda>m. status_of m = S ''OK'') matches);
          failed_tests = map fst (filter (\<lambda>m. status_of m \<noteq> S ''OK'') matches);
          categories = count_failed (count_passed [] passed_tests) failed_tests
      in \<lparr>total_tests = length passed_tests + length failed_tests,
          total_passed = length passed_tests,
          total_failed = length failed_tests,
          categories_of = categories\<rparr>)"

text \<open>
  \<open>pass_rate = 100 * counts['passed'] / total if total > 0 else 0\<close>, the quotient taken
  over the rationals (Python computes it in floating point).
\<close>

definition pass_rate :: "counts \<Rightarrow> rat" where
  "pass_rate c =
     (let n = passed c + failed c
      in if n > 0 then 100 * of_nat (passed c) / of_nat n else 0)"

definition scenario_d_log :: pystr where
  "scenario_d_log = S ''test.stExample.test_add...OK'' @ [10] @ S ''test.stExample.test_sub...FAIL'' @ [10]"

definition namespaced_log :: pystr where
  "namespaced_log =
     S ''test.ethereum_tests.stExample.test_add...OK'' @ [10]
     @ S ''test.ethereum_tests.stExample.test_sub...FAIL'' @ [10]"

section \<open>Facts about the sanitizer\<close>

lemma py_replace_char:
  "py_replace [a] new s = concat (map (\<lambda>c. if c = a then new else [c]) s)"
  by (induction s) (auto simp: py_replace_Nil py_replace_Cons)

lemma str_contains_set: "str_contains sub s \<Longrightarrow> set sub \<subseteq> set s"
proof (induction s)
  case Nil
  then show ?case by simp
next
  case (Cons c cs)
  from Cons.prems have "prefix sub (c # cs) \<or> str_contains sub cs" by simp
  then show ?case
  proof
    assume "prefix sub (c # cs)"
    then show ?thesis by (rule set_mono_prefix)
  next
    assume "str_contains sub cs"
    then show ?thesis using Cons.IH by auto
  qed
qed

lemma py_replace_absent:
  "old \<noteq> [] \<Longrightarrow> \<not> str_contains old s \<Longrightarrow> py_replace old new s = s"
  by (induction s) (simp_all add: py_replace_Nil py_replace_Cons)

lemma clean_replace_special: "clean U (replace_special U s)"
  by (induction s) (auto simp: clean_def replace_special_def)

lemma replace_special_clean: "clean U s \<Longrightarrow> replace_special U s = s"
  by (induction s) (auto simp: clean_def replace_special_def)

lemma py_replace_char_absent: "a \<notin> set s \<Longrightarrow> py_replace [a] new s = s"
  by (induction s) (auto simp: py_replace_char)

lemma clean_no_special:
  "clean U s \<Longrightarrow> c < 128 \<Longrightarrow> \<not> isalnum U c \<Longrightarrow> c \<noteq> 95 \<Longrightarrow> c \<notin> set s"
  by (auto simp: clean_def list_all_iff)

lemma set_py_replace_pair: "set (py_replace [a, a] [a] s) \<subseteq> set s"
proof (induction "length s" arbitrary: s rule: less_induct)
  case less
  show ?case
  proof (cases s)
    case Nil
    then show ?thesis by (simp add: py_replace_Nil)
  next
    case (Cons c cs)
    show ?thesis
    proof (cases "prefix [a, a] s")
      case True
      then obtain r where r: "s = a # a # r" by (auto simp: prefix_def)
      have "set (py_replace [a, a] [a] r) \<subseteq> set r"
        using less [of r] r by simp
      then show ?thesis unfolding r py_replace_pair_hit by auto
    next
      case False
      have "set (py_replace [a, a] [a] cs) \<subseteq> set cs"
        using less [of cs] Cons by simp
      moreover have "py_replace [a, a] [a] s = c # py_replace [a, a] [a] cs"
        using False unfolding Cons by (rule py_replace_pair_miss)
      ultimately show ?thesis using Cons by auto
    qed
  qed
qed

lemma collapse_underscores_props:
  "\<not> str_contains (S ''__'') (collapse_underscores s) \<and> set (collapse_underscores s) \<subseteq> set s"
proof (induction s rule: collapse_underscores.induct)
  case (1 s)
  show ?case
  proof (cases "str_contains (S ''__'') s")
    case True
    then have eq: "collapse_underscores s = collapse_underscores (py_replace (S ''__'') (S ''_'') s)"
      by (subst collapse_underscores.simps) simp
    have "set (py_replace (S ''__'') (S ''_'') s) \<subseteq> set s"
      using set_py_replace_pair [of 95 s] by simp
    then show ?thesis using "1" [OF True] eq by auto
  next
    case False
    then have "collapse_underscores s = s"
      by (subst collapse_underscores.simps) simp
    then show ?thesis using False by simp
  qed
qed

lemma collapse_underscores_fix: "\<not> str_contains (S ''__'') s \<Longrightarrow> collapse_underscores s = s"
  by (subst collapse_underscores.simps) simp

lemma clean_collapse: "clean U s \<Longrightarrow> clean U (collapse_underscores s)"
  using collapse_underscores_props [of s] by (auto simp: clean_def list_all_iff)

lemma prefix_digit_fix: "prefix_digit U (prefix_digit U s) = prefix_digit U s"
  by (cases s) (auto simp: prefix_digit_def isdigit_def)

lemma clean_prefix_digit: "clean U s \<Longrightarrow> clean U (prefix_digit U s)"
  by (cases s) (auto simp: prefix_digit_def clean_def isalnum_def)

lemma no_pair_prefix_digit:
  "\<not> str_contains (S ''__'') s \<Longrightarrow> \<not> str_contains (S ''__'') (prefix_digit U s)"
  by (cases s) (auto simp: prefix_digit_def isdigit_def)

lemma sanitize_spec_clean_fix:
  assumes "clean U y" and "prefix_digit U y = y"
  shows "sanitize_test_name_spec U y = y"
proof -
  have a: "py_replace (S ''-'') (S ''_'') y = y"
    using clean_no_special [OF assms(1), of 45] by (simp add: py_replace_char_absent isalnum_def)
  have b: "py_replace (S ''.'') (S ''_'') y = y"
    using clean_no_special [OF assms(1), of 46] by (simp add: py_replace_char_absent isalnum_def)
  have c: "py_replace (S '' '') (S ''_'') y = y"
    using clean_no_special [OF assms(1), of 32] by (simp add: py_replace_char_absent isalnum_def)
  show ?thesis
    unfolding sanitize_test_name_spec_def Let_def a b c
    using assms by (simp add: replace_special_clean)
qed

lemma sanitize_clean_fix:
  assumes "clean U y" and "\<not> str_contains (S ''__'') y" and "prefix_digit U y = y"
  shows "sanitize_test_name U y = y"
proof -
  have a: "py_replace (S ''-'') (S ''_'') y = y"
    using clean_no_special [OF assms(1), of 45] by (simp add: py_replace_char_absent isalnum_def)
  have b: "py_replace (S ''.'') (S ''_'') y = y"
    using clean_no_special [OF assms(1), of 46] by (simp add: py_replace_char_absent isalnum_def)
  have c: "py_replace (S '' '') (S ''_'') y = y"
    using clean_no_special [OF assms(1), of 32] by (simp add: py_replace_char_absent isalnum_def)
  have "58 \<notin> set y"
    using clean_no_special [OF assms(1), of 58] by (simp add: isalnum_def)
  then have "\<not> str_contains (S ''::'') y"
    using str_contains_set [of "S ''::''" y] by auto
  then have d: "py_replace (S ''::'') (S ''_'') y = y"
    by (simp add: py_replace_absent)
  have e: "py_replace (S ''('') (S ''_'') y = y"
    using clean_no_special [OF assms(1), of 40] by (simp add: py_replace_char_absent isalnum_def)
  have f: "py_replace (S '')'') (S ''_'') y = y"
    using clean_no_special [OF assms(1), of 41] by (simp add: py_replace_char_absent isalnum_def)
  have g: "py_replace (S ''['') (S ''_'') y = y"
    using clean_no_special [OF assms(1), of 91] by (simp add: py_replace_char_absent isalnum_def)
  have h: "py_replace (S '']'') (S ''_'') y = y"
    using clean_no_special [OF assms(1), of 93] by (simp add: py_replace_char_absent isalnum_def)
  have i: "py_replace (S '','') (S ''_'') y = y"
    using clean_no_special [OF assms(1), of 44] by (simp add: py_replace_char_absent isalnum_def)
  show ?thesis
    unfolding sanitize_test_name_def Let_def a b c d e f g h i
    using assms by (simp add: replace_special_clean collapse_underscores_fix)
qed

section \<open>Facts about the compiler\<close>

text \<open>Evaluations on the names and paths of the examples.\<close>

lemma sanitize_a_dot_b: "sanitize_test_name U (S ''a.b'') = S ''a_b''" by code_simp
lemma sanitize_a_dash_b: "sanitize_test_name U (S ''a-b'') = S ''a_b''" by code_simp
lemma sanitize_a_b_1: "sanitize_test_name U (S ''a_b_1'') = S ''a_b_1''" by code_simp
lemma sanitize_spec_a_dot_b: "sanitize_test_name_spec U (S ''a.b'') = S ''a_b''" by code_simp
lemma sanitize_spec_a_dash_b: "sanitize_test_name_spec U (S ''a-b'') = S ''a_b''" by code_simp
lemma sanitize_spec_a_b_1: "sanitize_test_name_spec U (S ''a_b_1'') = S ''a_b_1''" by code_simp
lemma str_of_nat_1: "str_of_nat 1 = S ''1''" by code_simp

lemma zig_rel_example:
  "path_of_str (py_replace (S ''.json'') (S ''.zig'') (S ''t/f.json'')) = [S ''t'', S ''f.zig'']"
  by code_simp

lemma with_suffix_example: "with_suffix [S ''t'', S ''f.json''] (S ''.zig'') = Inr [S ''t'', S ''f.zig'']"
  by code_simp

lemma str_of_path_example: "str_of_path [S ''fx'', S ''t'', S ''f.json''] = S ''fx/t/f.json''"
  by code_simp

lemma emit_tests_count:
  "\<exists>used zig. emit_tests U p (used_names, zig_code, n) keys = (used, zig_code @ zig, n + length keys)"
proof (induction keys arbitrary: used_names zig_code n)
  case Nil
  then show ?case by simp
next
  case (Cons k keys)
  obtain u nm where un: "unique_name used_names (sanitize_test_name U k) = (u, nm)"
    by (cases "unique_name used_names (sanitize_test_name U k)")
  from Cons [of u "zig_code @ test_block nm p k" "n + 1"]
  show ?case by (auto simp: un)
qed

lemma emit_tests_spec_count:
  assumes "relative_to (joinpath specs_root rel_path) repo_root = Inr q"
  shows "\<exists>used zig. emit_tests_spec U specs_root rel_path repo_root (used_names, zig_code, n) keys
           = Inr (used, zig_code @ zig, n + length keys)"
proof (induction keys arbitrary: used_names zig_code n)
  case Nil
  then show ?case by simp
next
  case (Cons k keys)
  obtain u nm where un: "unique_name used_names (sanitize_test_name_spec U k) = (u, nm)"
    by (cases "unique_name used_names (sanitize_test_name_spec U k)")
  from Cons [of u "zig_code @ test_block_spec nm (str_of_path q) k" "n + 1"]
  show ?case by (auto simp: un assms)
qed

lemma emit_tests_spec_raises:
  assumes "relative_to (joinpath specs_root rel_path) repo_root = Inl e" and "keys \<noteq> []"
  shows "emit_tests_spec U specs_root rel_path repo_root st keys = Inl e"
proof (cases keys)
  case Nil
  with assms show ?thesis by simp
next
  case (Cons k ks)
  obtain used_names zig_code n where st: "st = (used_names, zig_code, n)" by (cases st)
  show ?thesis unfolding Cons st by (simp add: assms Let_def split: prod.splits)
qed

lemma valid_name_not_root: "valid_name n \<Longrightarrow> n \<noteq> S ''/'' \<and> n \<noteq> S ''//''"
  by (auto simp: valid_name_def)

lemma is_absolute_append:
  "is_absolute (a @ b) = (if a = [] then is_absolute b else is_absolute a)"
  by (cases a) (simp_all add: is_absolute_def)

lemma valid_not_absolute: "list_all valid_name p \<Longrightarrow> \<not> is_absolute p"
  by (cases p) (auto simp: is_absolute_def valid_name_def)

lemma relative_to_append:
  "\<not> is_absolute rel \<Longrightarrow> relative_to (base @ rel) base = Inr rel"
  by (simp add: relative_to_def is_absolute_append)

lemma joinpath_relative: "\<not> is_absolute b \<Longrightarrow> joinpath a b = a @ b"
  by (simp add: joinpath_def)


lemma path_name_valid: "list_all valid_name (dirs @ [name]) \<Longrightarrow> path_name (dirs @ [name]) = name"
  using valid_not_absolute [of "dirs @ [name]"] by (simp add: path_name_def)

lemma zig_suffix_ok:
  "\<not> (str_contains (S ''/'') (S ''.zig'') \<or> (S ''.zig'' \<noteq> [] \<and> \<not> prefix (S ''.'') (S ''.zig''))
      \<or> S ''.zig'' = S ''.'')"
  by code_simp

lemma with_suffix_zig:
  assumes "list_all valid_name (dirs @ [name])"
  shows "\<exists>stem. with_suffix (dirs @ [name]) (S ''.zig'') = Inr (dirs @ [stem @ S ''.zig''])"
proof -
  have n: "path_name (dirs @ [name]) = name" using assms by (rule path_name_valid)
  have ne: "name \<noteq> []" using assms by (simp add: valid_name_def)
  have "with_suffix (dirs @ [name]) (S ''.zig'') =
      Inr (dirs @ [(if path_suffix (dirs @ [name]) = [] then name
                    else take (length name - length (path_suffix (dirs @ [name]))) name) @ S ''.zig''])"
    unfolding with_suffix_def Let_def n using zig_suffix_ok ne
    by (simp only: if_False if_True butlast_snoc append_assoc if_distrib [of "\<lambda>x. x @ _"] split: if_splits)
  then show ?thesis by blast
qed

lemma zig_name_not_root: "stem @ S ''.zig'' \<noteq> S ''/'' \<and> stem @ S ''.zig'' \<noteq> S ''//''"
proof (intro conjI notI)
  assume "stem @ S ''.zig'' = S ''/''"
  then have "length (stem @ S ''.zig'') = length (S ''/'')" by (rule arg_cong)
  then show False by simp
next
  assume "stem @ S ''.zig'' = S ''//''"
  then have "length (stem @ S ''.zig'') = length (S ''//'')" by (rule arg_cong)
  then show False by simp
qed


lemma zig_rel_not_absolute:
  "list_all valid_name dirs \<Longrightarrow> \<not> is_absolute (dirs @ [stem @ S ''.zig''])"
  using zig_name_not_root [of stem]
  by (cases dirs) (auto simp: is_absolute_def valid_name_def)

lemma generate_spec_mapping:
  assumes "json_path = specs_root @ dirs @ [name]" and "list_all valid_name (dirs @ [name])"
    and "specs_root = repo_root @ sub" and "list_all valid_name sub"
  shows "\<exists>stem blocks.
     generate_test_file_spec U (Loaded (JObject items)) json_path output_dir specs_root repo_root =
       Inr \<lparr>returned = length items, stderr_lines = [],
            written = Some (output_dir @ dirs @ [stem @ S ''.zig''],
              join_with [10] (preamble (root_import (length dirs + 1)) @ blocks))\<rparr>"
proof -
  have rel: "\<not> is_absolute (dirs @ [name])" using assms(2) by (rule valid_not_absolute)
  have r1: "relative_to json_path specs_root = Inr (dirs @ [name])"
    unfolding assms(1) using rel by (rule relative_to_append)
  obtain stem where ws: "with_suffix (dirs @ [name]) (S ''.zig'') = Inr (dirs @ [stem @ S ''.zig''])"
    using with_suffix_zig [OF assms(2)] by blast
  have za: "\<not> is_absolute (dirs @ [stem @ S ''.zig''])"
  proof -
    have "list_all valid_name dirs" using assms(2) by simp
    then show ?thesis by (rule zig_rel_not_absolute)
  qed
  have j: "joinpath output_dir (dirs @ [stem @ S ''.zig'']) = output_dir @ dirs @ [stem @ S ''.zig'']"
    using za by (rule joinpath_relative)
  have r2: "relative_to (output_dir @ dirs @ [stem @ S ''.zig'']) output_dir = Inr (dirs @ [stem @ S ''.zig''])"
    using za by (rule relative_to_append)
  have "\<not> is_absolute (sub @ dirs @ [name])"
    using assms(2,4) by (intro valid_not_absolute) simp
  then have r3: "relative_to (joinpath specs_root (dirs @ [name])) repo_root = Inr (sub @ dirs @ [name])"
    using rel relative_to_append [of "sub @ dirs @ [name]" repo_root]
    by (simp add: joinpath_relative assms(3))
  obtain used blocks where
    "emit_tests_spec U specs_root (dirs @ [name]) repo_root
       (Map.empty, preamble (root_import (length dirs + 1)), 0) (map fst items) =
     Inr (used, preamble (root_import (length dirs + 1)) @ blocks, 0 + length (map fst items))"
    using emit_tests_spec_count [OF r3] by blast
  then have "generate_test_file_spec U (Loaded (JObject items)) json_path output_dir specs_root repo_root =
       Inr \<lparr>returned = length items, stderr_lines = [],
            written = Some (output_dir @ dirs @ [stem @ S ''.zig''],
              join_with [10] (preamble (root_import (length dirs + 1)) @ blocks))\<rparr>"
    by (simp add: generate_test_file_spec_def r1 ws [simplified] j [simplified] r2 [simplified])
  then show ?thesis by blast
qed

lemma py_split_no_sep: "p \<in> set (py_split sep s) \<Longrightarrow> sep \<notin> set p"
proof (induction s arbitrary: p)
  case Nil
  then show ?case by simp
next
  case (Cons c cs)
  then show ?case
    by (cases "py_split sep cs") (auto split: if_splits)
qed

lemma path_of_str_relative:
  assumes "\<not> prefix (S ''/'') s"
  shows "\<not> is_absolute (path_of_str s)"
proof -
  have "\<not> prefix (S ''//'') s" using assms by (cases s) auto
  then have eq: "path_of_str s = filter (\<lambda>c. c \<noteq> [] \<and> c \<noteq> S ''.'') (py_split 47 s)"
    using assms by (simp add: path_of_str_def)
  show ?thesis
  proof (cases "path_of_str s")
    case Nil
    then show ?thesis by (simp add: is_absolute_def)
  next
    case (Cons r rest)
    have "set (path_of_str s) \<subseteq> set (py_split 47 s)" using eq by auto
    then have "r \<in> set (py_split 47 s)" using Cons by auto
    then have "47 \<notin> set r" by (rule py_split_no_sep)
    then show ?thesis using Cons by (auto simp: is_absolute_def)
  qed
qed

lemma py_replace_first:
  assumes "\<not> prefix [c] s" and "old \<noteq> []" and "new \<noteq> []" and "hd new \<noteq> c"
  shows "\<not> prefix [c] (py_replace old new s)"
proof (cases s)
  case Nil
  then show ?thesis using assms by (simp add: py_replace_Nil)
next
  case (Cons x xs)
  then show ?thesis using assms by (cases new) (auto simp: py_replace_Cons)
qed


lemma generate_tests_mapping:
  assumes "\<not> prefix (S ''/'') json_rel_path"
  shows "\<exists>blocks.
     generate_test_file U (Loaded (JObject items)) json_path output_dir json_rel_path source_name =
       Inr \<lparr>returned = length items, stderr_lines = [],
            written = Some (output_dir
                @ (if source_name = S ''ethereum_tests'' then [S ''ethereum_tests''] else [])
                @ path_of_str (py_replace (S ''.json'') (S ''.zig'') json_rel_path),
              join_with [10] (preamble (root_import (length
                ((if source_name = S ''ethereum_tests'' then [S ''ethereum_tests''] else [])
                 @ path_of_str (py_replace (S ''.json'') (S ''.zig'') json_rel_path)))) @ blocks))\<rparr>"
proof -
  define zig_rel where "zig_rel = path_of_str (py_replace (S ''.json'') (S ''.zig'') json_rel_path)"
  define ns where "ns = (if source_name = S ''ethereum_tests'' then [S ''ethereum_tests''] else [])"
  have "\<not> prefix [47] (py_replace (S ''.json'') (S ''.zig'') json_rel_path)"
    using assms by (intro py_replace_first) simp_all
  then have za: "\<not> is_absolute zig_rel"
    unfolding zig_rel_def by (intro path_of_str_relative) simp
  have na: "\<not> is_absolute (ns @ zig_rel)"
    using za by (simp add: ns_def is_absolute_append) (simp add: is_absolute_def)
  have out: "(if source_name = S ''ethereum_tests''
              then joinpath (joinpath output_dir [S ''ethereum_tests'']) zig_rel
              else joinpath output_dir zig_rel) = output_dir @ ns @ zig_rel"
    using za by (simp add: ns_def joinpath_def is_absolute_def)
  have r: "relative_to (output_dir @ ns @ zig_rel) output_dir = Inr (ns @ zig_rel)"
    using na by (rule relative_to_append)
  obtain used blocks where
    "emit_tests U json_rel_path (Map.empty, preamble (root_import (length (ns @ zig_rel))), 0)
       (map fst items) =
     (used, preamble (root_import (length (ns @ zig_rel))) @ blocks, 0 + length (map fst items))"
    using emit_tests_count by blast
  then have "generate_test_file U (Loaded (JObject items)) json_path output_dir json_rel_path source_name =
       Inr \<lparr>returned = length items, stderr_lines = [],
            written = Some (output_dir @ ns @ zig_rel,
              join_with [10] (preamble (root_import (length (ns @ zig_rel))) @ blocks))\<rparr>"
    unfolding generate_test_file_def Let_def zig_rel_def [symmetric] out
    by (simp add: r)
  then show ?thesis unfolding ns_def zig_rel_def by blast
qed

lemma generate_spec_outside:
  assumes "relative_to json_path specs_root = Inl e"
  shows "generate_test_file_spec U (Loaded (JObject items)) json_path output_dir specs_root repo_root = Inl e"
  by (simp add: generate_test_file_spec_def assms)

lemma relative_to_error: "relative_to p base = Inl e \<Longrightarrow> e = ValueError"
  by (auto simp: relative_to_def split: if_splits)


lemma process_files_spec_raises:
  assumes "json_path \<in> set files"
    and "generate_test_file_spec U (load json_path) json_path output_root specs_root repo_root = Inl e"
  shows "isl (process_files_spec U load output_root specs_root repo_root files n)"
  using assms
proof (induction files arbitrary: n)
  case Nil
  then show ?case by simp
next
  case (Cons f fs)
  then show ?case
    by (cases "generate_test_file_spec U (load f) f output_root specs_root repo_root") auto
qed

lemma zig_rel_b: "path_of_str (py_replace (S ''.json'') (S ''.zig'') (S ''a/f.json'')) = [S ''a'', S ''f.zig'']"
  by code_simp



section \<open>Facts about the file system\<close>

lemma exists_empty_state_dir:
  "exists repo_empty_state_dir ([S ''/'', S ''r''] @ [S ''ethereum-tests'', S ''GeneralStateTests''])"
  by code_simp

lemma rglob_empty_state_dir:
  "rglob_json repo_empty_state_dir [S ''/'', S ''r'', S ''ethereum-tests'', S ''GeneralStateTests''] = []"
  by code_simp

lemma archive_in_empty_state_dir:
  "exists repo_empty_state_dir [S ''/'', S ''r'', S ''ethereum-tests'', S ''fixtures_general_state_tests.tgz'']"
  by code_simp
























lemma scan_with_meta:
  "scan_test_directory repo_with_meta state_tests_root (S ''execution_specs'') [S ''/'', S ''r''] =
     Inr ([(state_tests_root @ [S ''add.json''],
             S ''execution-specs/tests/eest/static/state_tests/add.json''),
           (state_tests_root @ [S ''.meta'', S ''index.json''],
             S ''execution-specs/tests/eest/static/state_tests/.meta/index.json'')], [])"
  by code_simp

lemma json_files_spec_with_meta:
  "json_files_spec repo_with_meta state_tests_root = [state_tests_root @ [S ''add.json'']]"
  by code_simp

lemma not_slash_1: "\<not> prefix (S ''/'') (S ''execution-specs/tests/eest/static/state_tests/add.json'')"
  by code_simp

lemma not_slash_2:
  "\<not> prefix (S ''/'') (S ''execution-specs/tests/eest/static/state_tests/.meta/index.json'')"
  by code_simp

lemma process_with_meta:
  "process_files ascii_db (\<lambda>f. Loaded (JObject [(S ''t'', JNull)])) [S ''/'', S ''r'', S ''out'']
     (S ''execution_specs'')
     [(state_tests_root @ [S ''add.json''],
        S ''execution-specs/tests/eest/static/state_tests/add.json''),
      (state_tests_root @ [S ''.meta'', S ''index.json''],
        S ''execution-specs/tests/eest/static/state_tests/.meta/index.json'')] (0, 0) = Inr (2, 2)"
proof -
  obtain b1 where g1: "generate_test_file ascii_db (Loaded (JObject [(S ''t'', JNull)]))
      (state_tests_root @ [S ''add.json'']) [S ''/'', S ''r'', S ''out'']
      (S ''execution-specs/tests/eest/static/state_tests/add.json'') (S ''execution_specs'') = Inr b1"
    and r1: "returned b1 = 1"
    using generate_tests_mapping [OF not_slash_1, of ascii_db "[(S ''t'', JNull)]"
        "state_tests_root @ [S ''add.json'']" "[S ''/'', S ''r'', S ''out'']" "S ''execution_specs''"]
    by auto
  obtain b2 where g2: "generate_test_file ascii_db (Loaded (JObject [(S ''t'', JNull)]))
      (state_tests_root @ [S ''.meta'', S ''index.json'']) [S ''/'', S ''r'', S ''out'']
      (S ''execution-specs/tests/eest/static/state_tests/.meta/index.json'') (S ''execution_specs'') = Inr b2"
    and r2: "returned b2 = 1"
    using generate_tests_mapping [OF not_slash_2, of ascii_db "[(S ''t'', JNull)]"
        "state_tests_root @ [S ''.meta'', S ''index.json'']" "[S ''/'', S ''r'', S ''out'']" "S ''execution_specs''"]
    by auto
  show ?thesis
    by (simp add: g1 [simplified] g2 [simplified] r1 r2)
qed

lemma relative_each_raises:
  assumes "json_file \<in> set files" and "\<not> prefix repo_root json_file"
  shows "relative_each repo_root files = Inl ValueError"
  using assms
proof (induction files)
  case Nil
  then show ?case by simp
next
  case (Cons f fs)
  show ?case
  proof (cases "relative_to f repo_root")
    case (Inl e)
    then show ?thesis using relative_to_error [OF Inl] by simp
  next
    case (Inr rel)
    then have "prefix repo_root f" by (auto simp: relative_to_def split: if_splits)
    then have "json_file \<in> set fs" using Cons.prems by auto
    then have "relative_each repo_root fs = Inl ValueError" using Cons.IH Cons.prems(2) by simp
    then show ?thesis using Inr by simp
  qed
qed

lemma outside_raises:
  "\<not> prefix specs_root json_path \<Longrightarrow>
   generate_test_file_spec U (Loaded (JObject items)) json_path output_dir specs_root repo_root =
     Inl ValueError"
  by (rule generate_spec_outside) (simp add: relative_to_def)

lemma scanning_elsewhere:
  "exists repo_scanning_elsewhere [S ''/'', S ''elsewhere''] \<and>
   [S ''/'', S ''elsewhere'', S ''f.json''] \<in> set (rglob_json repo_scanning_elsewhere [S ''/'', S ''elsewhere''])"
  by code_simp

lemma call_linking:
  "ensure_blockchain_fixtures (members_lib True members_with_json) repo_legacy_tree
     blockchain_specs_root [S ''/'', S ''r''] =
   \<lparr>fs_after = repo_linked,
    performed = [Mkdir (parent blockchain_specs_root),
      Symlink [S ''/'', S ''r'', S ''ethereum-tests'', S ''BlockchainTests''] blockchain_specs_root,
      Print (S ''Linked blockchain fixtures from /r/ethereum-tests/BlockchainTests'')],
    raised = None\<rparr>"
  by code_simp

lemma linked_emptied_exists: "exists repo_linked_emptied blockchain_specs_root"
  by code_simp

lemma linked_emptied_no_json: "rglob_json repo_linked_emptied blockchain_specs_root = []"
  by code_simp

lemma linked_emptied_is_link:
  "map_of repo_linked_emptied blockchain_specs_root =
     Some (Link [S ''/'', S ''r'', S ''ethereum-tests'', S ''BlockchainTests''])"
  by code_simp

lemma linked_emptied_archive:
  "exists repo_linked_emptied [S ''/'', S ''r'', S ''ethereum-tests'', S ''fixtures_blockchain_tests.tgz'']"
  by code_simp

lemma stale_link_raises:
  "exists fs specs_root \<Longrightarrow> rglob_json fs specs_root = [] \<Longrightarrow>
   map_of fs specs_root = Some (Link t) \<Longrightarrow>
   ensure_blockchain_fixtures L fs specs_root repo_root =
     \<lparr>fs_after = fs, performed = [Rmtree specs_root], raised = Some OSError\<rparr>"
  by (simp add: ensure_blockchain_fixtures_def rmtree_def)






















section \<open>Facts about the result analyzer\<close>

lemma py_split_none: "sep \<notin> set a \<Longrightarrow> py_split sep a = [a]"
  by (induction a) auto

lemma py_split_append: "sep \<notin> set a \<Longrightarrow> py_split sep (a @ sep # r) = a # py_split sep r"
  by (induction a) auto

lemma py_split_two:
  "sep \<notin> set a \<Longrightarrow> sep \<notin> set b \<Longrightarrow> py_split sep (a @ sep # b) = [a, b]"
  by (simp add: py_split_append py_split_none)

lemma py_split_three:
  "sep \<notin> set a \<Longrightarrow> sep \<notin> set b \<Longrightarrow>
   py_split sep (a @ sep # b @ sep # r) = a # b # py_split sep r"
  by (simp add: py_split_append)

lemma counts_of_bump:
  "counts_of (bump f c cats) k = (if k = c then f (counts_of cats c) else counts_of cats k)"
  by (induction cats) (auto simp: counts_of_def)

lemma counts_of_empty: "counts_of [] c = \<lparr>passed = 0, failed = 0\<rparr>"
  by (simp add: counts_of_def)

lemma count_passed_tally:
  "passed (counts_of (count_passed cats tests) c) =
     passed (counts_of cats c) + length (filter (\<lambda>t. extract_category t = c) tests) \<and>
   failed (counts_of (count_passed cats tests) c) = failed (counts_of cats c)"
  by (induction tests arbitrary: cats) (auto simp: counts_of_bump)

lemma count_failed_tally:
  "failed (counts_of (count_failed cats tests) c) =
     failed (counts_of cats c) + length (filter (\<lambda>t. extract_category t = c) tests) \<and>
   passed (counts_of (count_failed cats tests) c) = passed (counts_of cats c)"
  by (induction tests arbitrary: cats) (auto simp: counts_of_bump)

lemma filter_names:
  "length (filter P (map fst (filter Q ms))) = length (filter (\<lambda>m. Q m \<and> P (fst m)) ms)"
  by (induction ms) auto

lemma length_partition: "length (filter Q ms) + length (filter (\<lambda>m. \<not> Q m) ms) = length ms"
  by (induction ms) auto

lemma matches_scenario_d:
  "finditer U scenario_d_log =
     [(S ''stExample.test_add'', S ''test.stExample.test_add...OK''),
      (S ''stExample.test_sub'', S ''test.stExample.test_sub...FAIL'')]"
  by code_simp

lemma matches_namespaced:
  "finditer U namespaced_log =
     [(S ''ethereum_tests.stExample.test_add'', S ''test.ethereum_tests.stExample.test_add...OK''),
      (S ''ethereum_tests.stExample.test_sub'', S ''test.ethereum_tests.stExample.test_sub...FAIL'')]"
  by code_simp

lemma analysis_scenario_d:
  "analyze_test_results U scenario_d_log =
     \<lparr>total_tests = 2, total_passed = 1, total_failed = 1,
      categories_of = [(S ''test_add'', \<lparr>passed = 1, failed = 0\<rparr>),
                       (S ''test_sub'', \<lparr>passed = 0, failed = 1\<rparr>)]\<rparr>"
  unfolding analyze_test_results_def matches_scenario_d by code_simp

lemma analysis_namespaced:
  "analyze_test_results U namespaced_log =
     \<lparr>total_tests = 2, total_passed = 1, total_failed = 1,
      categories_of = [(S ''stExample'', \<lparr>passed = 1, failed = 1\<rparr>)]\<rparr>"
  unfolding analyze_test_results_def matches_namespaced by code_simp

section \<open>Claims\<close>

text \<open>
  C7. For every raw name \<open>x\<close>, sanitizing the sanitized name changes nothing:
  \<open>sanitize(sanitize(x)) = sanitize(x)\<close>, for the richer variant of
  \<open>generate_tests.py\<close> (which also collapses runs of underscores) and for the simpler
  variant of \<open>generate_spec_tests.py\<close>, whatever the Unicode database says about the
  characters beyond ASCII.
\<close>

theorem sanitize_idempotent:
  "sanitize_test_name U (sanitize_test_name U x) = sanitize_test_name U x \<and>
   sanitize_test_name_spec U (sanitize_test_name_spec U x) = sanitize_test_name_spec U x"
proof
  define z where "z = collapse_underscores (replace_special U
    (py_replace (S '','') (S ''_'') (py_replace (S '']'') (S ''_'') (py_replace (S ''['') (S ''_'')
    (py_replace (S '')'') (S ''_'') (py_replace (S ''('') (S ''_'') (py_replace (S ''::'') (S ''_'')
    (py_replace (S '' '') (S ''_'') (py_replace (S ''.'') (S ''_'')
    (py_replace (S ''-'') (S ''_'') x))))))))))"
  have y: "sanitize_test_name U x = prefix_digit U z"
    by (simp add: sanitize_test_name_def z_def)
  have "clean U z"
    unfolding z_def by (rule clean_collapse) (rule clean_replace_special)
  moreover have "\<not> str_contains (S ''__'') z"
    unfolding z_def using collapse_underscores_props by blast
  ultimately show "sanitize_test_name U (sanitize_test_name U x) = sanitize_test_name U x"
    unfolding y
    by (intro sanitize_clean_fix clean_prefix_digit no_pair_prefix_digit prefix_digit_fix)
next
  define z where "z = replace_special U
    (py_replace (S '' '') (S ''_'') (py_replace (S ''.'') (S ''_'')
    (py_replace (S ''-'') (S ''_'') x)))"
  have y: "sanitize_test_name_spec U x = prefix_digit U z"
    by (simp add: sanitize_test_name_spec_def z_def)
  have "clean U z"
    unfolding z_def by (rule clean_replace_special)
  then show "sanitize_test_name_spec U (sanitize_test_name_spec U x) = sanitize_test_name_spec U x"
    unfolding y
    by (intro sanitize_spec_clean_fix clean_prefix_digit prefix_digit_fix)
qed

text \<open>
  C1. The claim: within one generated file all unit identifiers are pairwise distinct, for
  any raw names, also ones that already end in a numeric suffix. The code at the fixture
  \<open>{"a.b": ..., "a-b": ..., "a_b_1": ...}\<close>: both scripts return 3 and write a file whose
  second and third test blocks carry the same identifier \<open>a_b_1\<close>, the second as the
  first collision on the base \<open>a_b\<close>, the third as the first occurrence of the base
  \<open>a_b_1\<close>. The counter is keyed on the sanitized base name only and never looks at
  the identifiers it has handed out.
\<close>

theorem colliding_identifiers:
  "generate_test_file U
     (Loaded (JObject [(S ''a.b'', JNull), (S ''a-b'', JNull), (S ''a_b_1'', JNull)]))
     [S ''/'', S ''r'', S ''t'', S ''f.json''] [S ''/'', S ''r'', S ''out'']
     (S ''t/f.json'') (S ''execution_specs'') =
   Inr \<lparr>returned = 3, stderr_lines = [],
        written = Some ([S ''/'', S ''r'', S ''out'', S ''t'', S ''f.zig''],
          join_with [10] (preamble (root_import 2)
            @ test_block (S ''a_b'') (S ''t/f.json'') (S ''a.b'')
            @ test_block (S ''a_b_1'') (S ''t/f.json'') (S ''a-b'')
            @ test_block (S ''a_b_1'') (S ''t/f.json'') (S ''a_b_1'')))\<rparr> \<and>
   generate_test_file_spec U
     (Loaded (JObject [(S ''a.b'', JNull), (S ''a-b'', JNull), (S ''a_b_1'', JNull)]))
     [S ''/'', S ''r'', S ''fx'', S ''t'', S ''f.json''] [S ''/'', S ''r'', S ''out'']
     [S ''/'', S ''r'', S ''fx''] [S ''/'', S ''r''] =
   Inr \<lparr>returned = 3, stderr_lines = [],
        written = Some ([S ''/'', S ''r'', S ''out'', S ''t'', S ''f.zig''],
          join_with [10] (preamble (root_import 2)
            @ test_block_spec (S ''a_b'') (S ''fx/t/f.json'') (S ''a.b'')
            @ test_block_spec (S ''a_b_1'') (S ''fx/t/f.json'') (S ''a-b'')
            @ test_block_spec (S ''a_b_1'') (S ''fx/t/f.json'') (S ''a_b_1'')))\<rparr>"
proof
  show "generate_test_file U
     (Loaded (JObject [(S ''a.b'', JNull), (S ''a-b'', JNull), (S ''a_b_1'', JNull)]))
     [S ''/'', S ''r'', S ''t'', S ''f.json''] [S ''/'', S ''r'', S ''out'']
     (S ''t/f.json'') (S ''execution_specs'') =
   Inr \<lparr>returned = 3, stderr_lines = [],
        written = Some ([S ''/'', S ''r'', S ''out'', S ''t'', S ''f.zig''],
          join_with [10] (preamble (root_import 2)
            @ test_block (S ''a_b'') (S ''t/f.json'') (S ''a.b'')
            @ test_block (S ''a_b_1'') (S ''t/f.json'') (S ''a-b'')
            @ test_block (S ''a_b_1'') (S ''t/f.json'') (S ''a_b_1'')))\<rparr>"
    by (simp add: generate_test_file_def Let_def zig_rel_example [simplified]
        joinpath_def is_absolute_def relative_to_def unique_name_def
        sanitize_a_dot_b [simplified] sanitize_a_dash_b [simplified] sanitize_a_b_1 [simplified]
        str_of_nat_1 [simplified])
       (simp only: numeral_2_eq_2)
next
  show "generate_test_file_spec U
     (Loaded (JObject [(S ''a.b'', JNull), (S ''a-b'', JNull), (S ''a_b_1'', JNull)]))
     [S ''/'', S ''r'', S ''fx'', S ''t'', S ''f.json''] [S ''/'', S ''r'', S ''out'']
     [S ''/'', S ''r'', S ''fx''] [S ''/'', S ''r''] =
   Inr \<lparr>returned = 3, stderr_lines = [],
        written = Some ([S ''/'', S ''r'', S ''out'', S ''t'', S ''f.zig''],
          join_with [10] (preamble (root_import 2)
            @ test_block_spec (S ''a_b'') (S ''fx/t/f.json'') (S ''a.b'')
            @ test_block_spec (S ''a_b_1'') (S ''fx/t/f.json'') (S ''a-b'')
            @ test_block_spec (S ''a_b_1'') (S ''fx/t/f.json'') (S ''a_b_1'')))\<rparr>"
    by (simp add: generate_test_file_spec_def Let_def with_suffix_example [simplified]
        str_of_path_example [simplified]
        joinpath_def is_absolute_def relative_to_def unique_name_def
        sanitize_spec_a_dot_b [simplified] sanitize_spec_a_dash_b [simplified]
        sanitize_spec_a_b_1 [simplified] str_of_nat_1 [simplified])
       (simp only: numeral_2_eq_2)
qed

text \<open>
  C3. For every fixture file that is compiled, the import depth is the number of path
  segments of the output file relative to the generation root, the file name counted,
  and the import string is that many \<open>../\<close> followed by \<open>root.zig\<close>; it is computed
  per file. In \<open>generate_spec_tests.py\<close>, a file \<open>dirs/name\<close> below the fixture root is
  written to \<open>dirs/stem.zig\<close> below the generation root with depth
  \<open>length dirs + 1\<close>, for every list \<open>dirs\<close> (empty, one directory, two or more). In
  \<open>generate_tests.py\<close>, a relative path string \<open>json_rel_path\<close> is written to its
  \<open>.zig\<close> path below the generation root (below \<open>ethereum_tests\<close> for that source) with
  the number of segments of that relative output path as depth. The third line of the
  preamble carries the import string.
\<close>

theorem import_depth_per_file:
  "(json_path = specs_root @ dirs @ [name] \<and> list_all valid_name (dirs @ [name]) \<and>
    specs_root = repo_root @ sub \<and> list_all valid_name sub \<longrightarrow>
      (\<exists>stem blocks.
         generate_test_file_spec U (Loaded (JObject items)) json_path output_dir specs_root repo_root =
           Inr \<lparr>returned = length items, stderr_lines = [],
                written = Some (output_dir @ dirs @ [stem @ S ''.zig''],
                  join_with [10] (preamble (root_import (length (dirs @ [stem @ S ''.zig'']))) @ blocks))\<rparr>)) \<and>
   (\<not> prefix (S ''/'') json_rel_path \<longrightarrow>
      (\<exists>blocks.
         generate_test_file U (Loaded (JObject items)) json_file output_dir json_rel_path source_name =
           Inr \<lparr>returned = length items, stderr_lines = [],
                written = Some (output_dir
                    @ (if source_name = S ''ethereum_tests'' then [S ''ethereum_tests''] else [])
                    @ path_of_str (py_replace (S ''.json'') (S ''.zig'') json_rel_path),
                  join_with [10] (preamble (root_import (length
                    ((if source_name = S ''ethereum_tests'' then [S ''ethereum_tests''] else [])
                     @ path_of_str (py_replace (S ''.json'') (S ''.zig'') json_rel_path)))) @ blocks))\<rparr>)) \<and>
   root_import depth = concat (replicate depth (S ''../'')) @ S ''root.zig'' \<and>
   preamble (root_import depth) ! 2 =
     S ''const root = @import('' @ [34] @ concat (replicate depth (S ''../'')) @ S ''root.zig'' @ [34] @ S '');''"
proof (intro conjI impI)
  assume "json_path = specs_root @ dirs @ [name] \<and> list_all valid_name (dirs @ [name]) \<and>
    specs_root = repo_root @ sub \<and> list_all valid_name sub"
  then show "\<exists>stem blocks.
         generate_test_file_spec U (Loaded (JObject items)) json_path output_dir specs_root repo_root =
           Inr \<lparr>returned = length items, stderr_lines = [],
                written = Some (output_dir @ dirs @ [stem @ S ''.zig''],
                  join_with [10] (preamble (root_import (length (dirs @ [stem @ S ''.zig'']))) @ blocks))\<rparr>"
    using generate_spec_mapping [of json_path specs_root dirs name repo_root sub U items output_dir]
    by simp
next
  assume "\<not> prefix (S ''/'') json_rel_path"
  then show "\<exists>blocks.
         generate_test_file U (Loaded (JObject items)) json_file output_dir json_rel_path source_name =
           Inr \<lparr>returned = length items, stderr_lines = [],
                written = Some (output_dir
                    @ (if source_name = S ''ethereum_tests'' then [S ''ethereum_tests''] else [])
                    @ path_of_str (py_replace (S ''.json'') (S ''.zig'') json_rel_path),
                  join_with [10] (preamble (root_import (length
                    ((if source_name = S ''ethereum_tests'' then [S ''ethereum_tests''] else [])
                     @ path_of_str (py_replace (S ''.json'') (S ''.zig'') json_rel_path)))) @ blocks))\<rparr>"
    by (rule generate_tests_mapping)
next
  show "root_import depth = concat (replicate depth (S ''../'')) @ S ''root.zig''"
    by (simp add: root_import_def)
next
  show "preamble (root_import depth) ! 2 =
     S ''const root = @import('' @ [34] @ concat (replicate depth (S ''../'')) @ S ''root.zig'' @ [34] @ S '');''"
    by (simp add: preamble_def root_import_def numeral_2_eq_2)
qed

text \<open>Files directly in the root, one and two directories down, and a second source.\<close>

theorem import_depth_per_file_witness:
  "(\<exists>stem blocks.
      generate_test_file_spec ascii_db (Loaded (JObject [])) [S ''/'', S ''fx'', S ''f.json'']
        [S ''/'', S ''out''] [S ''/'', S ''fx''] [S ''/''] =
      Inr \<lparr>returned = 0, stderr_lines = [],
           written = Some ([S ''/'', S ''out'', stem @ S ''.zig''],
             join_with [10] (preamble (root_import 1) @ blocks))\<rparr>) \<and>
   (\<exists>stem blocks.
      generate_test_file_spec ascii_db (Loaded (JObject [])) [S ''/'', S ''fx'', S ''a'', S ''f.json'']
        [S ''/'', S ''out''] [S ''/'', S ''fx''] [S ''/''] =
      Inr \<lparr>returned = 0, stderr_lines = [],
           written = Some ([S ''/'', S ''out'', S ''a'', stem @ S ''.zig''],
             join_with [10] (preamble (root_import 2) @ blocks))\<rparr>) \<and>
   (\<exists>stem blocks.
      generate_test_file_spec ascii_db (Loaded (JObject [])) [S ''/'', S ''fx'', S ''a'', S ''b'', S ''f.json'']
        [S ''/'', S ''out''] [S ''/'', S ''fx''] [S ''/''] =
      Inr \<lparr>returned = 0, stderr_lines = [],
           written = Some ([S ''/'', S ''out'', S ''a'', S ''b'', stem @ S ''.zig''],
             join_with [10] (preamble (root_import 3) @ blocks))\<rparr>) \<and>
   (\<exists>blocks.
      generate_test_file ascii_db (Loaded (JObject [])) [S ''/'', S ''a'', S ''f.json'']
        [S ''/'', S ''out''] (S ''a/f.json'') (S ''ethereum_tests'') =
      Inr \<lparr>returned = 0, stderr_lines = [],
           written = Some ([S ''/'', S ''out'', S ''ethereum_tests'', S ''a'', S ''f.zig''],
             join_with [10] (preamble (root_import 3) @ blocks))\<rparr>)"
proof (intro conjI)
  show "\<exists>stem blocks.
      generate_test_file_spec ascii_db (Loaded (JObject [])) [S ''/'', S ''fx'', S ''f.json'']
        [S ''/'', S ''out''] [S ''/'', S ''fx''] [S ''/''] =
      Inr \<lparr>returned = 0, stderr_lines = [],
           written = Some ([S ''/'', S ''out'', stem @ S ''.zig''],
             join_with [10] (preamble (root_import 1) @ blocks))\<rparr>"
    using import_depth_per_file [where json_path = "[S ''/'', S ''fx'', S ''f.json'']"
        and specs_root = "[S ''/'', S ''fx'']" and dirs = "[]" and name = "S ''f.json''"
        and repo_root = "[S ''/'']" and sub = "[S ''fx'']" and U = ascii_db and items = "[]"
        and output_dir = "[S ''/'', S ''out'']",
        THEN conjunct1]
    by (simp add: valid_name_def)
  show "\<exists>stem blocks.
      generate_test_file_spec ascii_db (Loaded (JObject [])) [S ''/'', S ''fx'', S ''a'', S ''f.json'']
        [S ''/'', S ''out''] [S ''/'', S ''fx''] [S ''/''] =
      Inr \<lparr>returned = 0, stderr_lines = [],
           written = Some ([S ''/'', S ''out'', S ''a'', stem @ S ''.zig''],
             join_with [10] (preamble (root_import 2) @ blocks))\<rparr>"
    using import_depth_per_file [where json_path = "[S ''/'', S ''fx'', S ''a'', S ''f.json'']"
        and specs_root = "[S ''/'', S ''fx'']" and dirs = "[S ''a'']" and name = "S ''f.json''"
        and repo_root = "[S ''/'']" and sub = "[S ''fx'']" and U = ascii_db and items = "[]"
        and output_dir = "[S ''/'', S ''out'']",
        THEN conjunct1]
    by (simp add: valid_name_def) (simp only: numeral_2_eq_2)
  show "\<exists>stem blocks.
      generate_test_file_spec ascii_db (Loaded (JObject [])) [S ''/'', S ''fx'', S ''a'', S ''b'', S ''f.json'']
        [S ''/'', S ''out''] [S ''/'', S ''fx''] [S ''/''] =
      Inr \<lparr>returned = 0, stderr_lines = [],
           written = Some ([S ''/'', S ''out'', S ''a'', S ''b'', stem @ S ''.zig''],
             join_with [10] (preamble (root_import 3) @ blocks))\<rparr>"
    using import_depth_per_file [where json_path = "[S ''/'', S ''fx'', S ''a'', S ''b'', S ''f.json'']"
        and specs_root = "[S ''/'', S ''fx'']" and dirs = "[S ''a'', S ''b'']" and name = "S ''f.json''"
        and repo_root = "[S ''/'']" and sub = "[S ''fx'']" and U = ascii_db and items = "[]"
        and output_dir = "[S ''/'', S ''out'']",
        THEN conjunct1]
    by (simp add: valid_name_def) (simp only: numeral_3_eq_3)
  show "\<exists>blocks.
      generate_test_file ascii_db (Loaded (JObject [])) [S ''/'', S ''a'', S ''f.json'']
        [S ''/'', S ''out''] (S ''a/f.json'') (S ''ethereum_tests'') =
      Inr \<lparr>returned = 0, stderr_lines = [],
           written = Some ([S ''/'', S ''out'', S ''ethereum_tests'', S ''a'', S ''f.zig''],
             join_with [10] (preamble (root_import 3) @ blocks))\<rparr>"
    using import_depth_per_file [where json_rel_path = "S ''a/f.json''"
        and U = ascii_db and items = "[]" and output_dir = "[S ''/'', S ''out'']"
        and source_name = "S ''ethereum_tests''" and json_file = "[S ''/'', S ''a'', S ''f.json'']",
        THEN conjunct2, THEN conjunct1]
    by (simp add: zig_rel_b [simplified]) (simp only: numeral_3_eq_3)
qed





text \<open>
  C9. \<open>ensure_general_state_tests\<close> returns at once, with no call made and nothing
  printed, whenever the path \<open>ethereum-tests/GeneralStateTests\<close> exists, whatever it
  holds and whether or not the archive is there; so it does on every later call, and
  an empty directory keeps the archive from ever being extracted.
\<close>

theorem existing_directory_blocks_extraction:
  assumes "exists fs (repo_root @ [S ''ethereum-tests'', S ''GeneralStateTests''])"
  shows "ensure_general_state_tests L fs repo_root = \<lparr>fs_after = fs, performed = [], raised = None\<rparr> \<and>
         ((\<lambda>s. fs_after (ensure_general_state_tests L s repo_root)) ^^ n) fs = fs"
proof
  show one: "ensure_general_state_tests L fs repo_root = \<lparr>fs_after = fs, performed = [], raised = None\<rparr>"
    using assms by (simp add: ensure_general_state_tests_def)
  show "((\<lambda>s. fs_after (ensure_general_state_tests L s repo_root)) ^^ n) fs = fs"
    by (induction n) (simp_all add: one)
qed

text \<open>An empty directory next to an archive with a fixture: three calls change nothing.\<close>

theorem existing_directory_blocks_extraction_witness:
  "rglob_json repo_empty_state_dir [S ''/'', S ''r'', S ''ethereum-tests'', S ''GeneralStateTests''] = [] \<and>
   exists repo_empty_state_dir [S ''/'', S ''r'', S ''ethereum-tests'', S ''fixtures_general_state_tests.tgz''] \<and>
   ensure_general_state_tests (members_lib True state_members) repo_empty_state_dir [S ''/'', S ''r''] =
     \<lparr>fs_after = repo_empty_state_dir, performed = [], raised = None\<rparr> \<and>
   ((\<lambda>s. fs_after (ensure_general_state_tests (members_lib True state_members) s [S ''/'', S ''r''])) ^^ 3)
      repo_empty_state_dir = repo_empty_state_dir"
  using existing_directory_blocks_extraction [OF exists_empty_state_dir, of "members_lib True state_members" 3]
    rglob_empty_state_dir archive_in_empty_state_dir
  by simp




text \<open>
  C6. The claim: in the single-source and in the multi-source path alike, the files
  compiled are the JSON files below the source's root except those with a \<open>.meta\<close>
  segment in their path. The code at a state-test root that holds \<open>add.json\<close> and
  \<open>.meta/index.json\<close>: \<open>scan_test_directory\<close> of \<open>generate_tests.py\<close> returns both
  files and the loop of its \<open>main\<close> compiles both, while the list that \<open>main\<close> of
  \<open>generate_spec_tests.py\<close> builds for the same root leaves the index file out.
\<close>

theorem meta_file_compiled:
  "scan_test_directory repo_with_meta state_tests_root (S ''execution_specs'') [S ''/'', S ''r''] =
     Inr ([(state_tests_root @ [S ''add.json''],
             S ''execution-specs/tests/eest/static/state_tests/add.json''),
           (state_tests_root @ [S ''.meta'', S ''index.json''],
             S ''execution-specs/tests/eest/static/state_tests/.meta/index.json'')], []) \<and>
   process_files ascii_db (\<lambda>f. Loaded (JObject [(S ''t'', JNull)])) [S ''/'', S ''r'', S ''out'']
     (S ''execution_specs'')
     [(state_tests_root @ [S ''add.json''],
        S ''execution-specs/tests/eest/static/state_tests/add.json''),
      (state_tests_root @ [S ''.meta'', S ''index.json''],
        S ''execution-specs/tests/eest/static/state_tests/.meta/index.json'')] (0, 0) = Inr (2, 2) \<and>
   json_files_spec repo_with_meta state_tests_root = [state_tests_root @ [S ''add.json'']]"
  using scan_with_meta process_with_meta json_files_spec_with_meta by blast

text \<open>
  C8. The claim: a file path that is not below the fixture root is fatal to the run,
  never absorbed by the handling of malformed input, never a contribution of zero
  units. In \<open>generate_test_file\<close> of \<open>generate_spec_tests.py\<close> the file is opened and
  parsed before its path is resolved: for a path outside the root whose file cannot be
  read, the call prints the warning and returns 0, and the run goes on to its end.
\<close>

theorem unreadable_outside_root_skipped:
  "\<not> prefix [S ''/'', S ''fx''] [S ''/'', S ''elsewhere'', S ''f.json''] \<and>
   generate_test_file_spec ascii_db (LoadIOError (S ''No such file or directory''))
     [S ''/'', S ''elsewhere'', S ''f.json''] [S ''/'', S ''out''] [S ''/'', S ''fx''] [S ''/''] =
     Inr \<lparr>returned = 0,
          stderr_lines = [warn_parse [S ''/'', S ''elsewhere'', S ''f.json'']
                            (S ''No such file or directory'')],
          written = None\<rparr> \<and>
   process_files_spec ascii_db (\<lambda>f. LoadIOError (S ''No such file or directory''))
     [S ''/'', S ''out''] [S ''/'', S ''fx''] [S ''/''] [[S ''/'', S ''elsewhere'', S ''f.json'']] 0 = Inr 0"
  by (simp add: generate_test_file_spec_def skipped_def)

text \<open>
  C8 as amended. For a path outside the fixture root whose file loads as a mapping,
  \<open>generate_test_file\<close> of \<open>generate_spec_tests.py\<close> raises \<open>ValueError\<close>, and a run
  whose file list holds such a file ends with an exception. In \<open>generate_tests.py\<close> the
  check sits in \<open>scan_test_directory\<close>: a found file that is not below the repository
  root makes the scan raise \<open>ValueError\<close>. No handler catches either.
\<close>

theorem outside_root_is_fatal:
  "(\<not> prefix specs_root json_path \<longrightarrow>
      generate_test_file_spec U (Loaded (JObject items)) json_path output_dir specs_root repo_root =
        Inl ValueError) \<and>
   (json_path \<in> set files \<and> \<not> prefix specs_root json_path \<and> load json_path = Loaded (JObject items) \<longrightarrow>
      isl (process_files_spec U load output_dir specs_root repo_root files n)) \<and>
   (exists fs base_path \<and> json_file \<in> set (rglob_json fs base_path) \<and> \<not> prefix repo_root json_file \<longrightarrow>
      scan_test_directory fs base_path source_name repo_root = Inl ValueError)"
proof (intro conjI impI)
  assume "\<not> prefix specs_root json_path"
  then show "generate_test_file_spec U (Loaded (JObject items)) json_path output_dir specs_root repo_root =
        Inl ValueError"
    by (rule outside_raises)
next
  assume h: "json_path \<in> set files \<and> \<not> prefix specs_root json_path \<and> load json_path = Loaded (JObject items)"
  then have "generate_test_file_spec U (load json_path) json_path output_dir specs_root repo_root =
        Inl ValueError"
    by (simp add: outside_raises)
  then show "isl (process_files_spec U load output_dir specs_root repo_root files n)"
    using h by (intro process_files_spec_raises [of json_path]) simp_all
next
  assume h: "exists fs base_path \<and> json_file \<in> set (rglob_json fs base_path) \<and> \<not> prefix repo_root json_file"
  then have "relative_each repo_root (rglob_json fs base_path) = Inl ValueError"
    by (intro relative_each_raises [of json_file]) simp_all
  then show "scan_test_directory fs base_path source_name repo_root = Inl ValueError"
    using h by (simp add: scan_test_directory_def)
qed

text \<open>A mapping file outside the root, alone and after a file inside it; a scan elsewhere.\<close>

theorem outside_root_is_fatal_witness:
  "generate_test_file_spec ascii_db (Loaded (JObject [(S ''t'', JNull)]))
     [S ''/'', S ''elsewhere'', S ''f.json''] [S ''/'', S ''out''] [S ''/'', S ''fx''] [S ''/''] =
     Inl ValueError \<and>
   isl (process_files_spec ascii_db (\<lambda>f. Loaded (JObject [(S ''t'', JNull)]))
     [S ''/'', S ''out''] [S ''/'', S ''fx''] [S ''/'']
     [[S ''/'', S ''fx'', S ''a.json''], [S ''/'', S ''elsewhere'', S ''f.json'']] 0) \<and>
   scan_test_directory repo_scanning_elsewhere [S ''/'', S ''elsewhere''] (S ''ethereum_tests'')
     [S ''/'', S ''r''] = Inl ValueError"
  using outside_root_is_fatal [where specs_root = "[S ''/'', S ''fx'']"
      and json_path = "[S ''/'', S ''elsewhere'', S ''f.json'']" and U = ascii_db
      and items = "[(S ''t'', JNull)]" and output_dir = "[S ''/'', S ''out'']"
      and repo_root = "[S ''/'']"
      and files = "[[S ''/'', S ''fx'', S ''a.json''], [S ''/'', S ''elsewhere'', S ''f.json'']]"
      and load = "\<lambda>f. Loaded (JObject [(S ''t'', JNull)])" and n = 0, THEN conjunct1]
    outside_root_is_fatal [where specs_root = "[S ''/'', S ''fx'']"
      and json_path = "[S ''/'', S ''elsewhere'', S ''f.json'']" and U = ascii_db
      and items = "[(S ''t'', JNull)]" and output_dir = "[S ''/'', S ''out'']"
      and repo_root = "[S ''/'']"
      and files = "[[S ''/'', S ''fx'', S ''a.json''], [S ''/'', S ''elsewhere'', S ''f.json'']]"
      and load = "\<lambda>f. Loaded (JObject [(S ''t'', JNull)])" and n = 0, THEN conjunct2, THEN conjunct1]
    outside_root_is_fatal [where fs = repo_scanning_elsewhere
      and base_path = "[S ''/'', S ''elsewhere'']"
      and json_file = "[S ''/'', S ''elsewhere'', S ''f.json'']" and repo_root = "[S ''/'', S ''r'']"
      and source_name = "S ''ethereum_tests''", THEN conjunct2, THEN conjunct2]
    scanning_elsewhere
  by simp

text \<open>
  C2. The claim: the category of a matched test is the second dot-delimited segment of
  its name, \<open>unknown\<close> for a name of fewer than two segments, and the log of the lines
  \<open>test.stExample.test_add...OK\<close> and \<open>test.stExample.test_sub...FAIL\<close> yields the
  category \<open>stExample\<close> with 1 passed, 1 failed. The code at that log: the name of a
  match is what stands between \<open>test.\<close> and \<open>...\<close>, here \<open>stExample.test_add\<close> and
  \<open>stExample.test_sub\<close>, whose second segments are \<open>test_add\<close> and \<open>test_sub\<close>; the
  result has these two categories and none called \<open>stExample\<close>.
\<close>

theorem scenario_d_categories:
  "analyze_test_results ascii_db scenario_d_log =
     \<lparr>total_tests = 2, total_passed = 1, total_failed = 1,
      categories_of = [(S ''test_add'', \<lparr>passed = 1, failed = 0\<rparr>),
                       (S ''test_sub'', \<lparr>passed = 0, failed = 1\<rparr>)]\<rparr> \<and>
   map_of (categories_of (analyze_test_results ascii_db scenario_d_log)) (S ''stExample'') = None"
  unfolding analysis_scenario_d by simp

text \<open>
  C2 as amended. \<open>extract_category\<close> answers \<open>unknown\<close> for a name without a dot and the
  second segment for a name of two segments or more. For every log and every category,
  the passed and failed counts of the category are the numbers of matches with status
  \<open>OK\<close>, respectively another status, whose name (the text between \<open>test.\<close> and
  \<open>...\<close>) has that category, and the total is the number of matches. The log of the
  lines \<open>test.ethereum_tests.stExample.test_add...OK\<close> and
  \<open>test.ethereum_tests.stExample.test_sub...FAIL\<close> yields the one category \<open>stExample\<close>
  with 1 passed and 1 failed of 2 tests, a pass rate of 50 (printed as \<open>50.0%\<close>).
\<close>

theorem category_is_second_segment:
  "(46 \<notin> set a \<longrightarrow> extract_category a = S ''unknown'') \<and>
   (46 \<notin> set a \<and> 46 \<notin> set b \<longrightarrow>
      extract_category (a @ S ''.'' @ b) = b \<and> extract_category (a @ S ''.'' @ b @ S ''.'' @ r) = b) \<and>
   passed (counts_of (categories_of (analyze_test_results U content)) c) =
     length (filter (\<lambda>m. status_of m = S ''OK'' \<and> extract_category (fst m) = c) (finditer U content)) \<and>
   failed (counts_of (categories_of (analyze_test_results U content)) c) =
     length (filter (\<lambda>m. status_of m \<noteq> S ''OK'' \<and> extract_category (fst m) = c) (finditer U content)) \<and>
   total_tests (analyze_test_results U content) = length (finditer U content) \<and>
   analyze_test_results U namespaced_log =
     \<lparr>total_tests = 2, total_passed = 1, total_failed = 1,
      categories_of = [(S ''stExample'', \<lparr>passed = 1, failed = 1\<rparr>)]\<rparr> \<and>
   pass_rate \<lparr>passed = 1, failed = 1\<rparr> = 50"
proof (intro conjI impI)
  assume "46 \<notin> set a"
  then show "extract_category a = S ''unknown''"
    by (simp add: extract_category_def py_split_none)
next
  assume h: "46 \<notin> set a \<and> 46 \<notin> set b"
  then show "extract_category (a @ S ''.'' @ b) = b"
    by (simp add: extract_category_def py_split_two)
  show "extract_category (a @ S ''.'' @ b @ S ''.'' @ r) = b"
    using h by (simp add: extract_category_def py_split_three)
next
  show "passed (counts_of (categories_of (analyze_test_results U content)) c) =
     length (filter (\<lambda>m. status_of m = S ''OK'' \<and> extract_category (fst m) = c) (finditer U content))"
    by (simp add: analyze_test_results_def Let_def count_failed_tally count_passed_tally
        counts_of_empty filter_names)
  show "failed (counts_of (categories_of (analyze_test_results U content)) c) =
     length (filter (\<lambda>m. status_of m \<noteq> S ''OK'' \<and> extract_category (fst m) = c) (finditer U content))"
    by (simp add: analyze_test_results_def Let_def count_failed_tally count_passed_tally
        counts_of_empty filter_names)
  show "total_tests (analyze_test_results U content) = length (finditer U content)"
    by (simp add: analyze_test_results_def Let_def length_partition)
  show "analyze_test_results U namespaced_log =
     \<lparr>total_tests = 2, total_passed = 1, total_failed = 1,
      categories_of = [(S ''stExample'', \<lparr>passed = 1, failed = 1\<rparr>)]\<rparr>"
    by (rule analysis_namespaced)
  show "pass_rate \<lparr>passed = 1, failed = 1\<rparr> = 50"
    by (simp add: pass_rate_def)
qed

text \<open>The names of the code's own comments, and a name of one segment.\<close>

theorem category_is_second_segment_witness:
  "extract_category (S ''test_add'') = S ''unknown'' \<and>
   extract_category (S ''stExample.test_add'') = S ''test_add'' \<and>
   extract_category (S ''ethereum_tests.stExample.test_add'') = S ''stExample''"
  using category_is_second_segment [where a = "S ''test_add''", THEN conjunct1]
    category_is_second_segment [where a = "S ''stExample''" and b = "S ''test_add''",
      THEN conjunct2, THEN conjunct1]
    category_is_second_segment [where a = "S ''ethereum_tests''" and b = "S ''stExample''"
      and r = "S ''test_add''", THEN conjunct2, THEN conjunct1]
  by simp

text \<open>
  C10. The claim: when the canonical path of the blockchain fixtures exists and has no
  JSON file below it, \<open>ensure_blockchain_fixtures\<close> deletes the whole tree there before
  it tries to link, copy or extract. The code where the canonical path is a symbolic
  link, as its own first tier leaves it: in a repository with the legacy tree and the
  archive the call links the legacy tree to the canonical path; once the legacy tree
  has lost its fixture, the canonical path still exists and has no JSON file below it,
  and the next call, whatever the library does, ends in \<open>shutil.rmtree\<close> with an
  \<open>OSError\<close> (it refuses a symbolic link): nothing is deleted, the link stays, and
  neither the legacy tree nor the archive, which is there, is looked at.
\<close>

theorem stale_symlink_not_deleted:
  "ensure_blockchain_fixtures (members_lib True members_with_json) repo_legacy_tree
     blockchain_specs_root [S ''/'', S ''r''] =
     \<lparr>fs_after = repo_linked,
      performed = [Mkdir (parent blockchain_specs_root),
        Symlink [S ''/'', S ''r'', S ''ethereum-tests'', S ''BlockchainTests''] blockchain_specs_root,
        Print (S ''Linked blockchain fixtures from /r/ethereum-tests/BlockchainTests'')],
      raised = None\<rparr> \<and>
   repo_linked_emptied =
     filter (\<lambda>(p, n). p \<noteq> [S ''/'', S ''r'', S ''ethereum-tests'', S ''BlockchainTests'', S ''add.json''])
       repo_linked \<and>
   exists repo_linked_emptied blockchain_specs_root \<and>
   rglob_json repo_linked_emptied blockchain_specs_root = [] \<and>
   exists repo_linked_emptied [S ''/'', S ''r'', S ''ethereum-tests'', S ''fixtures_blockchain_tests.tgz''] \<and>
   ensure_blockchain_fixtures L repo_linked_emptied blockchain_specs_root [S ''/'', S ''r''] =
     \<lparr>fs_after = repo_linked_emptied, performed = [Rmtree blockchain_specs_root],
      raised = Some OSError\<rparr>"
proof (intro conjI)
  show "ensure_blockchain_fixtures (members_lib True members_with_json) repo_legacy_tree
     blockchain_specs_root [S ''/'', S ''r''] =
     \<lparr>fs_after = repo_linked,
      performed = [Mkdir (parent blockchain_specs_root),
        Symlink [S ''/'', S ''r'', S ''ethereum-tests'', S ''BlockchainTests''] blockchain_specs_root,
        Print (S ''Linked blockchain fixtures from /r/ethereum-tests/BlockchainTests'')],
      raised = None\<rparr>"
    by (rule call_linking)
  show "repo_linked_emptied =
     filter (\<lambda>(p, n). p \<noteq> [S ''/'', S ''r'', S ''ethereum-tests'', S ''BlockchainTests'', S ''add.json''])
       repo_linked"
    by code_simp
  show "exists repo_linked_emptied blockchain_specs_root"
    by (rule linked_emptied_exists)
  show "rglob_json repo_linked_emptied blockchain_specs_root = []"
    by (rule linked_emptied_no_json)
  show "exists repo_linked_emptied [S ''/'', S ''r'', S ''ethereum-tests'', S ''fixtures_blockchain_tests.tgz'']"
    by (rule linked_emptied_archive)
  show "ensure_blockchain_fixtures L repo_linked_emptied blockchain_specs_root [S ''/'', S ''r''] =
     \<lparr>fs_after = repo_linked_emptied, performed = [Rmtree blockchain_specs_root],
      raised = Some OSError\<rparr>"
    using linked_emptied_exists linked_emptied_no_json linked_emptied_is_link
    by (rule stale_link_raises)
qed

end
